theory Spec2Isabelle
  imports Main
begin

section \<open>Python values the session code handles\<close>

text \<open>
  The development embeds \<^verbatim>\<open>bedrock_manager.py\<close> (class \<^verbatim>\<open>BedrockStreamManager\<close>) and the
  playback loop of \<^verbatim>\<open>audio_streamer.py\<close> (class \<^verbatim>\<open>AudioStreamer\<close>).

  Text (Python \<^verbatim>\<open>str\<close>) and byte strings are both modelled as \<^typ>\<open>string\<close>: a text is
  represented by the bytes of the UTF-8 encoding of its code points, a lone surrogate by
  the three bytes this scheme gives it. A text can hold lone surrogates (\<^verbatim>\<open>os.getenv\<close> and
  \<^verbatim>\<open>json.loads\<close> produce them), and then its bytes are not well-formed UTF-8. So
  \<^verbatim>\<open>s.encode('utf-8')\<close> returns the bytes of a text when they are well-formed and raises
  \<^verbatim>\<open>UnicodeEncodeError\<close> otherwise, and \<^verbatim>\<open>b.decode('utf-8')\<close> succeeds on well-formed bytes
  only. Exceptions are values of the type \<open>error\<close>; only subclasses of Python's
  \<^verbatim>\<open>Exception\<close> are listed, since those are what the \<^verbatim>\<open>except Exception\<close> clauses of the
  source catch.
\<close>

datatype error =
    ClientError
  | ConnectError
  | SendError
  | ReceiveError
  | CloseError
  | DeviceError
  | TimeoutError
  | JSONDecodeError
  | UnicodeDecodeError
  | UnicodeEncodeError
  | Base64Error
  | KeyError
  | TypeError
  | AttributeError
  | ValueError

datatype json =
    JNull
  | JBool bool
  | JNumber string
  | JString string
  | JArray "json list"
  | JObject "(string \<times> json) list"

subsection \<open>\<^verbatim>\<open>json.loads\<close>\<close>

text \<open>
  \<^verbatim>\<open>json.loads\<close> is the standard library's decoder; the source calls it on every inbound
  message and it is the decoder of the wire schema. It is modelled here as a lexer followed
  by a pushdown parser, both structurally recursive on their input. The grammar is the one
  CPython accepts in its default (strict) mode: the four whitespace characters, the
  literals \<^verbatim>\<open>true false null NaN Infinity -Infinity\<close>, numbers, strings without raw control
  characters and with the escapes \<^verbatim>\<open>\" \\ \/ \b \f \n \r \t \uXXXX\<close> (a high surrogate
  followed by an escaped low surrogate is one code point), arrays and objects. A number is
  kept as its lexeme. An object is a Python \<^verbatim>\<open>dict\<close>: a repeated key keeps its first position
  and its last value. \<open>None\<close> is \<^verbatim>\<open>json.JSONDecodeError\<close>.
\<close>

definition is_ws :: "char \<Rightarrow> bool" where
  "is_ws c = (c = CHR 0x20 \<or> c = CHR 0x09 \<or> c = CHR 0x0A \<or> c = CHR 0x0D)"

definition is_digit :: "char \<Rightarrow> bool" where
  "is_digit c = (48 \<le> (of_char c :: nat) \<and> (of_char c :: nat) \<le> 57)"

definition is_alpha :: "char \<Rightarrow> bool" where
  "is_alpha c =
     ((65 \<le> (of_char c :: nat) \<and> (of_char c :: nat) \<le> 90) \<or>
      (97 \<le> (of_char c :: nat) \<and> (of_char c :: nat) \<le> 122))"

definition is_word_char :: "char \<Rightarrow> bool" where
  "is_word_char c = (is_digit c \<or> is_alpha c \<or> c = CHR ''-'' \<or> c = CHR ''+'' \<or> c = CHR ''.'')"

definition hex_val :: "char \<Rightarrow> nat option" where
  "hex_val c =
     (let n = (of_char c :: nat) in
      if 48 \<le> n \<and> n \<le> 57 then Some (n - 48)
      else if 65 \<le> n \<and> n \<le> 70 then Some (n - 55)
      else if 97 \<le> n \<and> n \<le> 102 then Some (n - 87)
      else None)"

fun hex4 :: "string \<Rightarrow> nat option" where
  "hex4 (a # b # c # d # _) =
     (case (hex_val a, hex_val b, hex_val c, hex_val d) of
        (Some x, Some y, Some z, Some w) \<Rightarrow> Some (((x * 16 + y) * 16 + z) * 16 + w)
      | _ \<Rightarrow> None)"
| "hex4 _ = None"

text \<open>A code point as the bytes of its UTF-8 encoding (a lone surrogate gets the
  three-byte form, as Python's \<^verbatim>\<open>surrogatepass\<close> handler writes it).\<close>

definition utf8_encode :: "nat \<Rightarrow> string" where
  "utf8_encode n =
     (if n < 0x80 then [char_of n]
      else if n < 0x800 then [char_of (0xC0 + n div 64), char_of (0x80 + n mod 64)]
      else if n < 0x10000 then
        [char_of (0xE0 + n div 4096), char_of (0x80 + (n div 64) mod 64), char_of (0x80 + n mod 64)]
      else
        [char_of (0xF0 + n div 262144), char_of (0x80 + (n div 4096) mod 64),
         char_of (0x80 + (n div 64) mod 64), char_of (0x80 + n mod 64)])"

definition simple_escape :: "char \<Rightarrow> char option" where
  "simple_escape e =
     (if e = CHR 0x22 then Some (CHR 0x22)
      else if e = CHR 0x5C then Some (CHR 0x5C)
      else if e = CHR ''/'' then Some (CHR ''/'')
      else if e = CHR ''b'' then Some (CHR 0x08)
      else if e = CHR ''f'' then Some (CHR 0x0C)
      else if e = CHR ''n'' then Some (CHR 0x0A)
      else if e = CHR ''r'' then Some (CHR 0x0D)
      else if e = CHR ''t'' then Some (CHR 0x09)
      else None)"

definition is_high_surrogate :: "nat \<Rightarrow> bool" where
  "is_high_surrogate n = (0xD800 \<le> n \<and> n \<le> 0xDBFF)"

definition is_low_surrogate :: "nat \<Rightarrow> bool" where
  "is_low_surrogate n = (0xDC00 \<le> n \<and> n \<le> 0xDFFF)"

definition low_after :: "string \<Rightarrow> nat option" where
  "low_after r =
     (case r of
        b # u # r' \<Rightarrow>
          if b = CHR 0x5C \<and> u = CHR ''u'' then
            (case hex4 r' of Some n \<Rightarrow> if is_low_surrogate n then Some n else None | None \<Rightarrow> None)
          else None
      | _ \<Rightarrow> None)"

text \<open>The body of a string literal (the text between its quotes) to the text it denotes.\<close>

fun unescape :: "string \<Rightarrow> string option" where
  "unescape [] = Some []"
| "unescape (c # cs) =
     (if c = CHR 0x5C then
        (case cs of
           [] \<Rightarrow> None
         | e # rest \<Rightarrow>
             if e = CHR ''u'' then
               (case hex4 rest of
                  None \<Rightarrow> None
                | Some hi \<Rightarrow>
                    (case (if is_high_surrogate hi then low_after (drop 4 rest) else None) of
                       Some lo \<Rightarrow>
                         map_option
                           (\<lambda>t. utf8_encode (0x10000 + (hi - 0xD800) * 1024 + (lo - 0xDC00)) @ t)
                           (unescape (drop 10 rest))
                     | None \<Rightarrow> map_option (\<lambda>t. utf8_encode hi @ t) (unescape (drop 4 rest))))
             else
               (case simple_escape e of
                  None \<Rightarrow> None
                | Some d \<Rightarrow> map_option (\<lambda>t. d # t) (unescape rest)))
      else if (of_char c :: nat) < 32 then None
      else map_option (\<lambda>t. c # t) (unescape cs))"

text \<open>Numbers: \<^verbatim>\<open>-?(0|[1-9][0-9]*)(\.[0-9]+)?([eE][-+]?[0-9]+)?\<close>.\<close>

definition num_exp :: "string \<Rightarrow> bool" where
  "num_exp s =
     (case s of
        [] \<Rightarrow> True
      | c # r \<Rightarrow>
          (c = CHR ''e'' \<or> c = CHR ''E'') \<and>
          (let ds = (case r of
                       [] \<Rightarrow> []
                     | g # r2 \<Rightarrow> if g = CHR ''+'' \<or> g = CHR ''-'' then r2 else r)
           in ds \<noteq> [] \<and> list_all is_digit ds))"

definition num_frac :: "string \<Rightarrow> bool" where
  "num_frac s =
     (case s of
        [] \<Rightarrow> True
      | c # r \<Rightarrow>
          if c = CHR ''.'' then takeWhile is_digit r \<noteq> [] \<and> num_exp (dropWhile is_digit r)
          else num_exp s)"

definition num_int :: "string \<Rightarrow> bool" where
  "num_int s =
     (case s of
        [] \<Rightarrow> False
      | c # r \<Rightarrow>
          if c = CHR ''0'' then num_frac r
          else if is_digit c then num_frac (dropWhile is_digit r)
          else False)"

definition is_json_number :: "string \<Rightarrow> bool" where
  "is_json_number s =
     (case s of [] \<Rightarrow> False | c # r \<Rightarrow> if c = CHR ''-'' then num_int r else num_int s)"

datatype token =
    TLBrace | TRBrace | TLBracket | TRBracket | TColon | TComma
  | TStr string
  | TLit json

definition word_token :: "string \<Rightarrow> token option" where
  "word_token w =
     (if w = ''true'' then Some (TLit (JBool True))
      else if w = ''false'' then Some (TLit (JBool False))
      else if w = ''null'' then Some (TLit JNull)
      else if w = ''NaN'' \<or> w = ''Infinity'' \<or> w = ''-Infinity'' then Some (TLit (JNumber w))
      else if is_json_number w then Some (TLit (JNumber w))
      else None)"

definition punct :: "char \<Rightarrow> token option" where
  "punct c =
     (if c = CHR ''{'' then Some TLBrace
      else if c = CHR ''}'' then Some TRBrace
      else if c = CHR ''['' then Some TLBracket
      else if c = CHR '']'' then Some TRBracket
      else if c = CHR '':'' then Some TColon
      else if c = CHR '','' then Some TComma
      else None)"

datatype lex_mode = Between | InString string | InEscape string | InWord string

fun tokenize :: "lex_mode \<Rightarrow> string \<Rightarrow> token list option" where
  "tokenize Between [] = Some []"
| "tokenize (InString acc) [] = None"
| "tokenize (InEscape acc) [] = None"
| "tokenize (InWord w) [] = map_option (\<lambda>t. [t]) (word_token w)"
| "tokenize Between (c # cs) =
     (if is_ws c then tokenize Between cs
      else if c = CHR 0x22 then tokenize (InString []) cs
      else (case punct c of
              Some t \<Rightarrow> map_option (\<lambda>ts. t # ts) (tokenize Between cs)
            | None \<Rightarrow> if is_word_char c then tokenize (InWord [c]) cs else None))"
| "tokenize (InString acc) (c # cs) =
     (if c = CHR 0x22 then
        (case unescape acc of
           None \<Rightarrow> None
         | Some s \<Rightarrow> map_option (\<lambda>ts. TStr s # ts) (tokenize Between cs))
      else if c = CHR 0x5C then tokenize (InEscape (acc @ [c])) cs
      else tokenize (InString (acc @ [c])) cs)"
| "tokenize (InEscape acc) (c # cs) = tokenize (InString (acc @ [c])) cs"
| "tokenize (InWord w) (c # cs) =
     (if is_word_char c then tokenize (InWord (w @ [c])) cs
      else (case word_token w of
              None \<Rightarrow> None
            | Some t \<Rightarrow>
                if is_ws c then map_option (\<lambda>ts. t # ts) (tokenize Between cs)
                else (case punct c of
                        Some p \<Rightarrow> map_option (\<lambda>ts. t # p # ts) (tokenize Between cs)
                      | None \<Rightarrow> None)))"

text \<open>A \<^verbatim>\<open>dict\<close> assignment \<^verbatim>\<open>d[k] = v\<close> on the ordered list of items.\<close>

fun dict_set :: "(string \<times> json) list \<Rightarrow> string \<Rightarrow> json \<Rightarrow> (string \<times> json) list" where
  "dict_set [] k v = [(k, v)]"
| "dict_set ((k', v') # kvs) k v =
     (if k' = k then (k, v) # kvs else (k', v') # dict_set kvs k v)"

datatype frame = FArray "json list" | FObject "(string \<times> json) list" | FMember "(string \<times> json) list" string

datatype pstate =
    NeedValue | NeedValueOrClose | NeedKey | NeedKeyOrClose | NeedColon
  | AfterElem | AfterMember | Done json

text \<open>A finished value goes into the container on top of the stack.\<close>

fun push_value :: "json \<Rightarrow> frame list \<Rightarrow> (pstate \<times> frame list) option" where
  "push_value v [] = Some (Done v, [])"
| "push_value v (FArray xs # stk) = Some (AfterElem, FArray (xs @ [v]) # stk)"
| "push_value v (FMember kvs k # stk) = Some (AfterMember, FObject (dict_set kvs k v) # stk)"
| "push_value v (FObject kvs # stk) = None"

definition start_value :: "frame list \<Rightarrow> token \<Rightarrow> (pstate \<times> frame list) option" where
  "start_value stk t =
     (case t of
        TLBrace \<Rightarrow> Some (NeedKeyOrClose, FObject [] # stk)
      | TLBracket \<Rightarrow> Some (NeedValueOrClose, FArray [] # stk)
      | TStr s \<Rightarrow> push_value (JString s) stk
      | TLit v \<Rightarrow> push_value v stk
      | _ \<Rightarrow> None)"

definition close_array :: "frame list \<Rightarrow> (pstate \<times> frame list) option" where
  "close_array stk = (case stk of FArray xs # stk' \<Rightarrow> push_value (JArray xs) stk' | _ \<Rightarrow> None)"

definition close_object :: "frame list \<Rightarrow> (pstate \<times> frame list) option" where
  "close_object stk = (case stk of FObject kvs # stk' \<Rightarrow> push_value (JObject kvs) stk' | _ \<Rightarrow> None)"

definition start_key :: "frame list \<Rightarrow> token \<Rightarrow> (pstate \<times> frame list) option" where
  "start_key stk t =
     (case (t, stk) of
        (TStr k, FObject kvs # stk') \<Rightarrow> Some (NeedColon, FMember kvs k # stk')
      | _ \<Rightarrow> None)"

definition parse_step :: "pstate \<Rightarrow> frame list \<Rightarrow> token \<Rightarrow> (pstate \<times> frame list) option" where
  "parse_step st stk t =
     (case st of
        NeedValue \<Rightarrow> start_value stk t
      | NeedValueOrClose \<Rightarrow> if t = TRBracket then close_array stk else start_value stk t
      | NeedKey \<Rightarrow> start_key stk t
      | NeedKeyOrClose \<Rightarrow> if t = TRBrace then close_object stk else start_key stk t
      | NeedColon \<Rightarrow> if t = TColon then Some (NeedValue, stk) else None
      | AfterElem \<Rightarrow>
          if t = TComma then Some (NeedValue, stk)
          else if t = TRBracket then close_array stk
          else None
      | AfterMember \<Rightarrow>
          if t = TComma then Some (NeedKey, stk)
          else if t = TRBrace then close_object stk
          else None
      | Done v \<Rightarrow> None)"

fun parse_tokens :: "pstate \<Rightarrow> frame list \<Rightarrow> token list \<Rightarrow> json option" where
  "parse_tokens st stk [] = (case st of Done v \<Rightarrow> Some v | _ \<Rightarrow> None)"
| "parse_tokens st stk (t # ts) =
     (case parse_step st stk t of
        None \<Rightarrow> None
      | Some (st', stk') \<Rightarrow> parse_tokens st' stk' ts)"

definition json_loads :: "string \<Rightarrow> json option" where
  "json_loads s =
     (case tokenize Between s of None \<Rightarrow> None | Some ts \<Rightarrow> parse_tokens NeedValue [] ts)"

subsection \<open>Python operations on decoded values\<close>

text \<open>\<^verbatim>\<open>needle in hay\<close> on two texts.\<close>

fun py_str_contains :: "string \<Rightarrow> string \<Rightarrow> bool" where
  "py_str_contains needle [] = (needle = [])"
| "py_str_contains needle (c # cs) =
     (take (length needle) (c # cs) = needle \<or> py_str_contains needle cs)"

text \<open>\<^verbatim>\<open>k in v\<close> for a text \<open>k\<close>: key membership on a dict, element membership on a list,
  substring on a text, \<^verbatim>\<open>TypeError\<close> on a number, a boolean or \<^verbatim>\<open>None\<close>.\<close>

definition py_in :: "string \<Rightarrow> json \<Rightarrow> error + bool" where
  "py_in k v =
     (case v of
        JObject kvs \<Rightarrow> Inr (k \<in> set (map fst kvs))
      | JArray xs \<Rightarrow> Inr (JString k \<in> set xs)
      | JString t \<Rightarrow> Inr (py_str_contains k t)
      | _ \<Rightarrow> Inl TypeError)"

text \<open>\<^verbatim>\<open>v[k]\<close> for a text \<open>k\<close>: \<^verbatim>\<open>KeyError\<close> on a dict without the key, \<^verbatim>\<open>TypeError\<close> on
  everything that is not a dict.\<close>

definition py_getitem :: "json \<Rightarrow> string \<Rightarrow> error + json" where
  "py_getitem v k =
     (case v of
        JObject kvs \<Rightarrow> (case map_of kvs k of None \<Rightarrow> Inl KeyError | Some x \<Rightarrow> Inr x)
      | _ \<Rightarrow> Inl TypeError)"

text \<open>\<^verbatim>\<open>len(s)\<close> of a text counts code points: the bytes that are not UTF-8 continuation
  bytes.\<close>

definition py_len :: "string \<Rightarrow> nat" where
  "py_len s = length (filter (\<lambda>c. \<not> (128 \<le> (of_char c :: nat) \<and> (of_char c :: nat) < 192)) s)"

text \<open>\<^verbatim>\<open>template % args\<close>. The templates of the source hold the conversion \<^verbatim>\<open>%s\<close> only, and
  every argument is a text; other conversions are outside the model and reported as an
  error. Too few or too many arguments are Python's \<^verbatim>\<open>TypeError\<close>.\<close>

fun py_format :: "string \<Rightarrow> string list \<Rightarrow> error + string" where
  "py_format [] args = (if args = [] then Inr [] else Inl TypeError)"
| "py_format (c # t) args =
     (if c = CHR ''%'' then
        (case t of
           [] \<Rightarrow> Inl ValueError
         | d # t' \<Rightarrow>
             if d = CHR ''s'' then
               (case args of
                  [] \<Rightarrow> Inl TypeError
                | a # args' \<Rightarrow> map_sum id (\<lambda>r. a @ r) (py_format t' args'))
             else if d = CHR ''%'' then map_sum id (\<lambda>r. CHR ''%'' # r) (py_format t' args)
             else Inl ValueError)
      else map_sum id (\<lambda>r. c # r) (py_format t args))"

text \<open>\<^verbatim>\<open>b.decode('utf-8')\<close> succeeds on well-formed UTF-8 only.\<close>

definition byte_in :: "char \<Rightarrow> nat \<Rightarrow> nat \<Rightarrow> bool" where
  "byte_in c lo hi = (lo \<le> (of_char c :: nat) \<and> (of_char c :: nat) \<le> hi)"

fun utf8_valid :: "string \<Rightarrow> bool" where
  "utf8_valid [] = True"
| "utf8_valid (a # r) =
     (if byte_in a 0x00 0x7F then utf8_valid r
      else if byte_in a 0xC2 0xDF then
        (case r of b # r' \<Rightarrow> byte_in b 0x80 0xBF \<and> utf8_valid r' | _ \<Rightarrow> False)
      else if byte_in a 0xE0 0xEF then
        (case r of
           b # c # r' \<Rightarrow>
             byte_in b (if a = CHR 0xE0 then 0xA0 else 0x80) (if a = CHR 0xED then 0x9F else 0xBF) \<and>
             byte_in c 0x80 0xBF \<and> utf8_valid r'
         | _ \<Rightarrow> False)
      else if byte_in a 0xF0 0xF4 then
        (case r of
           b # c # d # r' \<Rightarrow>
             byte_in b (if a = CHR 0xF0 then 0x90 else 0x80) (if a = CHR 0xF4 then 0x8F else 0xBF) \<and>
             byte_in c 0x80 0xBF \<and> byte_in d 0x80 0xBF \<and> utf8_valid r'
         | _ \<Rightarrow> False)
      else False)"

text \<open>\<^verbatim>\<open>s.encode('utf-8')\<close>\<close>

definition py_encode :: "string \<Rightarrow> error + string" where
  "py_encode s = (if utf8_valid s then Inr s else Inl UnicodeEncodeError)"

text \<open>\<^verbatim>\<open>str(u)\<close> of a UUID \<open>u\<close>, given by its 128-bit integer (\<^verbatim>\<open>u.int\<close>): 32 lower-case
  hexadecimal digits in groups of 8, 4, 4, 4 and 12.\<close>

type_synonym uuid = int

definition hex_digit :: "int \<Rightarrow> char" where
  "hex_digit n = ''0123456789abcdef'' ! nat (n mod 16)"

fun hex_digits :: "nat \<Rightarrow> int \<Rightarrow> string" where
  "hex_digits 0 n = []"
| "hex_digits (Suc k) n = hex_digits k (n div 16) @ [hex_digit n]"

definition uuid_text :: "uuid \<Rightarrow> string" where
  "uuid_text u =
     (let h = hex_digits 32 u in
      take 8 h @ ''-'' @ take 4 (drop 8 h) @ ''-'' @ take 4 (drop 12 h) @ ''-'' @
      take 4 (drop 16 h) @ ''-'' @ drop 20 h)"

section \<open>The event templates\<close>

text \<open>The class attributes of \<^verbatim>\<open>BedrockStreamManager\<close>, character for character (each line
  of a template ends in a newline but the last).\<close>

definition START_SESSION_EVENT :: string where
  \<open>START_SESSION_EVENT =
     ''{\<newline>'' @
     ''        "event": {\<newline>'' @
     ''            "sessionStart": {\<newline>'' @
     ''            "inferenceConfiguration": {\<newline>'' @
     ''                "maxTokens": 1024,\<newline>'' @
     ''                "topP": 0.9,\<newline>'' @
     ''                "temperature": 0.7\<newline>'' @
     ''                }\<newline>'' @
     ''            }\<newline>'' @
     ''        }\<newline>'' @
     ''    }''\<close>

definition START_PROMPT_EVENT :: string where
  \<open>START_PROMPT_EVENT =
     ''{\<newline>'' @
     ''        "event": {\<newline>'' @
     ''            "promptStart": {\<newline>'' @
     ''            "promptName": "%s",\<newline>'' @
     ''            "textOutputConfiguration": {\<newline>'' @
     ''                "mediaType": "text/plain"\<newline>'' @
     ''                },\<newline>'' @
     ''            "audioOutputConfiguration": {\<newline>'' @
     ''                "mediaType": "audio/lpcm",\<newline>'' @
     ''                "sampleRateHertz": 24000,\<newline>'' @
     ''                "sampleSizeBits": 16,\<newline>'' @
     ''                "channelCount": 1,\<newline>'' @
     ''                "voiceId": "%s",\<newline>'' @
     ''                "encoding": "base64",\<newline>'' @
     ''                "audioType": "SPEECH"\<newline>'' @
     ''                },\<newline>'' @
     ''            "toolUseOutputConfiguration": {\<newline>'' @
     ''                "mediaType": "application/json"\<newline>'' @
     ''                },\<newline>'' @
     ''            "toolConfiguration": {\<newline>'' @
     ''                "tools": []\<newline>'' @
     ''                }\<newline>'' @
     ''            }\<newline>'' @
     ''        }\<newline>'' @
     ''    }''\<close>

definition CONTENT_START_EVENT :: string where
  \<open>CONTENT_START_EVENT =
     ''{\<newline>'' @
     ''        "event": {\<newline>'' @
     ''            "contentStart": {\<newline>'' @
     ''            "promptName": "%s",\<newline>'' @
     ''            "contentName": "%s",\<newline>'' @
     ''            "type": "AUDIO",\<newline>'' @
     ''            "interactive": true,\<newline>'' @
     ''            "role": "USER",\<newline>'' @
     ''            "audioInputConfiguration": {\<newline>'' @
     ''                "mediaType": "audio/lpcm",\<newline>'' @
     ''                "sampleRateHertz": 16000,\<newline>'' @
     ''                "sampleSizeBits": 16,\<newline>'' @
     ''                "channelCount": 1,\<newline>'' @
     ''                "audioType": "SPEECH",\<newline>'' @
     ''                "encoding": "base64"\<newline>'' @
     ''                }\<newline>'' @
     ''            }\<newline>'' @
     ''        }\<newline>'' @
     ''    }''\<close>

definition AUDIO_EVENT_TEMPLATE :: string where
  \<open>AUDIO_EVENT_TEMPLATE =
     ''{\<newline>'' @
     ''        "event": {\<newline>'' @
     ''            "audioInput": {\<newline>'' @
     ''            "promptName": "%s",\<newline>'' @
     ''            "contentName": "%s",\<newline>'' @
     ''            "content": "%s"\<newline>'' @
     ''            }\<newline>'' @
     ''        }\<newline>'' @
     ''    }''\<close>

definition TEXT_CONTENT_START_EVENT :: string where
  \<open>TEXT_CONTENT_START_EVENT =
     ''{\<newline>'' @
     ''        "event": {\<newline>'' @
     ''            "contentStart": {\<newline>'' @
     ''            "promptName": "%s",\<newline>'' @
     ''            "contentName": "%s",\<newline>'' @
     ''            "role": "%s",\<newline>'' @
     ''            "type": "TEXT",\<newline>'' @
     ''            "interactive": true,\<newline>'' @
     ''                "textInputConfiguration": {\<newline>'' @
     ''                    "mediaType": "text/plain"\<newline>'' @
     ''                }\<newline>'' @
     ''            }\<newline>'' @
     ''        }\<newline>'' @
     ''    }''\<close>

definition TEXT_INPUT_EVENT :: string where
  \<open>TEXT_INPUT_EVENT =
     ''{\<newline>'' @
     ''        "event": {\<newline>'' @
     ''            "textInput": {\<newline>'' @
     ''            "promptName": "%s",\<newline>'' @
     ''            "contentName": "%s",\<newline>'' @
     ''            "content": "%s"\<newline>'' @
     ''            }\<newline>'' @
     ''        }\<newline>'' @
     ''    }''\<close>

definition CONTENT_END_EVENT :: string where
  \<open>CONTENT_END_EVENT =
     ''{\<newline>'' @
     ''        "event": {\<newline>'' @
     ''            "contentEnd": {\<newline>'' @
     ''            "promptName": "%s",\<newline>'' @
     ''            "contentName": "%s"\<newline>'' @
     ''            }\<newline>'' @
     ''        }\<newline>'' @
     ''    }''\<close>

definition PROMPT_END_EVENT :: string where
  \<open>PROMPT_END_EVENT =
     ''{\<newline>'' @
     ''        "event": {\<newline>'' @
     ''            "promptEnd": {\<newline>'' @
     ''            "promptName": "%s"\<newline>'' @
     ''            }\<newline>'' @
     ''        }\<newline>'' @
     ''    }''\<close>

definition SESSION_END_EVENT :: string where
  \<open>SESSION_END_EVENT =
     ''{\<newline>'' @
     ''        "event": {\<newline>'' @
     ''            "sessionEnd": {}\<newline>'' @
     ''        }\<newline>'' @
     ''    }''\<close>

section \<open>The stream manager\<close>

text \<open>
  What the code takes from outside the three source files is a parameter of the model:
  the module constants \<^verbatim>\<open>DEBUG\<close> (\<^verbatim>\<open>utils.py\<close>) and \<^verbatim>\<open>CHUNK_SIZE\<close> (\<^verbatim>\<open>config.py\<close>), and the
  standard library's \<^verbatim>\<open>base64.b64encode\<close> and \<^verbatim>\<open>base64.b64decode\<close> (\<open>None\<close>: the text is
  rejected). \<^verbatim>\<open>debug_print\<close> and the \<^verbatim>\<open>time_it\<close> wrappers of \<^verbatim>\<open>utils.py\<close> only write
  diagnostics and time a call; their calls are left out. What \<^verbatim>\<open>print\<close> writes is kept.
\<close>

record env =
  DEBUG :: bool
  CHUNK_SIZE :: int
  b64encode :: "string \<Rightarrow> string"
  b64decode :: "string \<Rightarrow> string option"

datatype console_line =
    AssistantLine json
  | UserLine json
  | Notice string
  | InitFailure error
  | PlaybackError error

type_synonym 'a result = "error option \<times> 'a"

text \<open>An Rx \<^verbatim>\<open>Subject\<close>: once it has seen \<^verbatim>\<open>on_error\<close> or \<^verbatim>\<open>on_completed\<close> it is stopped and
  ignores every later notification. \<open>emitted\<close> lists the values it took while not stopped.
  The source subscribes its one observer through \<^verbatim>\<open>ops.subscribe_on(self.scheduler)\<close>, which
  only schedules the subscription on the event loop: the observer is \<open>Scheduled\<close> until the
  loop runs the scheduled action, and receives nothing before.\<close>

datatype subscription = Unsubscribed | Scheduled | Subscribed

record 'a subject =
  is_stopped :: bool
  exception :: "error option"
  emitted :: "'a list"
  observer :: subscription

definition new_subject :: "'a subject" where
  "new_subject = \<lparr>is_stopped = False, exception = None, emitted = [], observer = Unsubscribed\<rparr>"

definition subj_on_next :: "'a \<Rightarrow> 'a subject \<Rightarrow> 'a subject" where
  "subj_on_next v sj = (if is_stopped sj then sj else sj\<lparr>emitted := emitted sj @ [v]\<rparr>)"

definition subj_on_error :: "error \<Rightarrow> 'a subject \<Rightarrow> 'a subject" where
  "subj_on_error e sj = (if is_stopped sj then sj else sj\<lparr>is_stopped := True, exception := Some e\<rparr>)"

definition subj_on_completed :: "'a subject \<Rightarrow> 'a subject" where
  "subj_on_completed sj = (if is_stopped sj then sj else sj\<lparr>is_stopped := True\<rparr>)"

text \<open>\<^verbatim>\<open>subject.pipe(ops.subscribe_on(scheduler)).subscribe(...)\<close>, and the scheduled action
  when the event loop runs it: a stopped subject hands the observer its final notification
  and does not keep it.\<close>

definition subj_subscribe_on :: "'a subject \<Rightarrow> 'a subject" where
  "subj_subscribe_on sj = sj\<lparr>observer := Scheduled\<rparr>"

definition subj_run_scheduled :: "'a subject \<Rightarrow> 'a subject" where
  "subj_run_scheduled sj =
     (if observer sj = Scheduled
      then sj\<lparr>observer := (if is_stopped sj then Unsubscribed else Subscribed)\<rparr>
      else sj)"

text \<open>The bidirectional stream (\<^verbatim>\<open>stream_response\<close>). \<open>send_script\<close> gives the outcome of the
  coming calls of \<^verbatim>\<open>input_stream.send\<close>, in order (\<open>Some e\<close>: the call raises \<open>e\<close>; past the
  end of the script every call succeeds); \<open>sent\<close> lists the messages it accepted.\<close>

record transport =
  send_script :: "error option list"
  sent :: "string list"
  close_error :: "error option"
  closed :: bool

definition transport_send :: "string \<Rightarrow> transport \<Rightarrow> transport result" where
  "transport_send bytes tr =
     (case send_script tr of
        [] \<Rightarrow> (None, tr\<lparr>sent := sent tr @ [bytes]\<rparr>)
      | None # rest \<Rightarrow> (None, tr\<lparr>send_script := rest, sent := sent tr @ [bytes]\<rparr>)
      | Some e # rest \<Rightarrow> (Some e, tr\<lparr>send_script := rest\<rparr>))"

datatype task = Running | Finished | Cancelled

record manager =
  model_id :: string
  region :: string
  system_prompt :: string
  voice_id :: string
  input_subject :: "string subject"
  output_subject :: "json subject"
  audio_subject :: "string subject"
  response_task :: "task option"
  stream_response :: "transport option"
  is_active :: bool
  barge_in :: bool
  bedrock_client :: bool
  scheduler :: bool
  audio_output_queue :: "string list"
  display_assistant_text :: bool
  role :: "json option"
  prompt_name :: uuid
  content_name :: uuid
  audio_content_name :: uuid
  console :: "console_line list"
  audio_tasks :: "string list"

text \<open>
  The three names are assigned once, in \<^verbatim>\<open>__init__\<close>, each as \<^verbatim>\<open>str(uuid.uuid4())\<close>; the record
  keeps the UUID and \<open>uuid_text\<close> gives the text. \<open>console\<close> lists what the manager has
  printed. \<open>audio_tasks\<close> lists the chunks for which the observer of \<^verbatim>\<open>audio_subject\<close> has
  created a task \<^verbatim>\<open>_handle_audio_input\<close> that the event loop has not run yet.

  \<^verbatim>\<open>__init__\<close>; the three \<^verbatim>\<open>uuid.uuid4()\<close> values are arguments.
\<close>

definition init_manager ::
  "string \<Rightarrow> string \<Rightarrow> string \<Rightarrow> string \<Rightarrow> uuid \<Rightarrow> uuid \<Rightarrow> uuid \<Rightarrow> manager" where
  "init_manager mid reg sp vid u1 u2 u3 =
     \<lparr>model_id = mid, region = reg, system_prompt = sp, voice_id = vid,
      input_subject = new_subject, output_subject = new_subject, audio_subject = new_subject,
      response_task = None, stream_response = None, is_active = False, barge_in = False,
      bedrock_client = False, scheduler = False, audio_output_queue = [],
      display_assistant_text = False, role = None,
      prompt_name = u1, content_name = u2, audio_content_name = u3, console = [],
      audio_tasks = []\<rparr>"

text \<open>The debug branch of \<^verbatim>\<open>send_raw_event\<close> (lines 252 to 257) decodes a long event to log
  its kind, inside the \<^verbatim>\<open>try\<close>: what it raises, if anything.\<close>

definition debug_event_type :: "string \<Rightarrow> error option" where
  "debug_event_type event_json =
     (if py_len event_json > 200 then
        (case json_loads event_json of
           None \<Rightarrow> Some JSONDecodeError
         | Some (JObject kvs) \<Rightarrow>
             (case map_of kvs ''event'' of
                None \<Rightarrow> None
              | Some (JObject _) \<Rightarrow> None
              | Some _ \<Rightarrow> Some AttributeError)
         | Some _ \<Rightarrow> Some AttributeError)
      else None)"

text \<open>\<^verbatim>\<open>send_raw_event\<close>. The chunk is built, and the event encoded, before the \<^verbatim>\<open>try\<close>
  (lines 245 to 247): \<^verbatim>\<open>UnicodeEncodeError\<close> leaves the method. What the \<^verbatim>\<open>try\<close> block raises
  goes to \<^verbatim>\<open>input_subject.on_error\<close>.\<close>

definition send_raw_event :: "env \<Rightarrow> string \<Rightarrow> manager \<Rightarrow> manager result" where
  "send_raw_event E event_json s =
     (case stream_response s of
        None \<Rightarrow> (None, s)
      | Some tr \<Rightarrow>
          if \<not> is_active s then (None, s)
          else
            (case py_encode event_json of
               Inl e \<Rightarrow> (Some e, s)
             | Inr bytes \<Rightarrow>
                 (case transport_send bytes tr of
                    (Some e, tr') \<Rightarrow>
                      (None, s\<lparr>stream_response := Some tr',
                                input_subject := subj_on_error e (input_subject s)\<rparr>)
                  | (None, tr') \<Rightarrow>
                      (case (if DEBUG E then debug_event_type event_json else None) of
                         Some e \<Rightarrow>
                           (None, s\<lparr>stream_response := Some tr',
                                     input_subject := subj_on_error e (input_subject s)\<rparr>)
                       | None \<Rightarrow> (None, s\<lparr>stream_response := Some tr'\<rparr>)))))"

definition and_then :: "'s result \<Rightarrow> ('s \<Rightarrow> 's result) \<Rightarrow> 's result" where
  "and_then r f = (case r of (Some e, s) \<Rightarrow> (Some e, s) | (None, s) \<Rightarrow> f s)"

text \<open>\<^verbatim>\<open>for event in init_events: await self.send_raw_event(event)\<close>\<close>

fun send_all :: "env \<Rightarrow> string list \<Rightarrow> manager \<Rightarrow> manager result" where
  "send_all E [] s = (None, s)"
| "send_all E (ev # evs) s = and_then (send_raw_event E ev s) (send_all E evs)"

definition init_events :: "manager \<Rightarrow> error + string list" where
  "init_events s =
     (case py_format START_PROMPT_EVENT [uuid_text (prompt_name s), voice_id s] of
        Inl e \<Rightarrow> Inl e
      | Inr prompt_event \<Rightarrow>
          (case py_format TEXT_CONTENT_START_EVENT [uuid_text (prompt_name s), uuid_text (content_name s), ''SYSTEM''] of
             Inl e \<Rightarrow> Inl e
           | Inr text_content_start \<Rightarrow>
               (case py_format TEXT_INPUT_EVENT [uuid_text (prompt_name s), uuid_text (content_name s), system_prompt s] of
                  Inl e \<Rightarrow> Inl e
                | Inr text_content \<Rightarrow>
                    (case py_format CONTENT_END_EVENT [uuid_text (prompt_name s), uuid_text (content_name s)] of
                       Inl e \<Rightarrow> Inl e
                     | Inr text_content_end \<Rightarrow>
                         Inr [START_SESSION_EVENT, prompt_event, text_content_start,
                              text_content, text_content_end]))))"

text \<open>What the outside world answers at startup: the construction of the client
  (\<^verbatim>\<open>_initialize_client\<close>) and the call that opens the stream.\<close>

record startup =
  client_outcome :: "error option"
  connect_outcome :: "error + transport"

text \<open>The \<^verbatim>\<open>except Exception\<close> clause of \<^verbatim>\<open>initialize_stream\<close>.\<close>

definition init_failed :: "error \<Rightarrow> manager \<Rightarrow> manager result" where
  "init_failed e s = (Some e, s\<lparr>is_active := False, console := console s @ [InitFailure e]\<rparr>)"

definition initialize_stream :: "env \<Rightarrow> startup \<Rightarrow> manager \<Rightarrow> manager result" where
  "initialize_stream E w s0 =
     (case (if bedrock_client s0 then None else client_outcome w) of
        Some e \<Rightarrow> (Some e, s0)
      | None \<Rightarrow>
          (let s1 = s0\<lparr>bedrock_client := True, scheduler := True\<rparr> in
           case connect_outcome w of
             Inl e \<Rightarrow> init_failed e s1
           | Inr tr \<Rightarrow>
               (let s2 = s1\<lparr>stream_response := Some tr, is_active := True\<rparr> in
                case init_events s2 of
                  Inl e \<Rightarrow> init_failed e s2
                | Inr evs \<Rightarrow>
                    (case send_all E evs s2 of
                       (Some e, s3) \<Rightarrow> init_failed e s3
                     | (None, s3) \<Rightarrow>
                         (None, s3\<lparr>response_task := Some Running,
                                    input_subject := subj_subscribe_on (input_subject s3),
                                    audio_subject := subj_subscribe_on (audio_subject s3)\<rparr>)))))"

text \<open>The event loop runs the two subscriptions that \<^verbatim>\<open>initialize_stream\<close> scheduled.\<close>

definition run_subscriptions :: "manager \<Rightarrow> manager" where
  "run_subscriptions s =
     s\<lparr>input_subject := subj_run_scheduled (input_subject s),
       audio_subject := subj_run_scheduled (audio_subject s)\<rparr>"

definition send_audio_content_start_event :: "env \<Rightarrow> manager \<Rightarrow> manager result" where
  "send_audio_content_start_event E s =
     (case py_format CONTENT_START_EVENT [uuid_text (prompt_name s), uuid_text (audio_content_name s)] of
        Inl e \<Rightarrow> (Some e, s)
      | Inr content_start_event \<Rightarrow> send_raw_event E content_start_event s)"

text \<open>\<^verbatim>\<open>_handle_audio_input\<close>; the argument is \<^verbatim>\<open>data.get('audio_bytes')\<close>. Its
  \<^verbatim>\<open>except Exception\<close> clause catches what the formatting and \<^verbatim>\<open>send_raw_event\<close> raise and
  only writes diagnostics; the state is as the raising call left it.\<close>

definition handle_audio_input :: "env \<Rightarrow> string option \<Rightarrow> manager \<Rightarrow> manager result" where
  "handle_audio_input E audio_bytes s =
     (case audio_bytes of
        None \<Rightarrow> (None, s)
      | Some b \<Rightarrow>
          if b = [] then (None, s)
          else
            (case py_format AUDIO_EVENT_TEMPLATE
                    [uuid_text (prompt_name s), uuid_text (audio_content_name s), b64encode E b] of
               Inl e \<Rightarrow> (None, s)
             | Inr audio_event \<Rightarrow> (None, snd (send_raw_event E audio_event s))))"

text \<open>\<^verbatim>\<open>add_audio_chunk\<close> hands the chunk to \<^verbatim>\<open>audio_subject\<close>. A subject that is not stopped
  passes it to its observer, if the subscription has taken place; the observer creates a
  task \<^verbatim>\<open>_handle_audio_input\<close> for the chunk, which the event loop runs later. Without a
  subscribed observer the chunk is dropped.\<close>

definition add_audio_chunk :: "string \<Rightarrow> manager \<Rightarrow> manager" where
  "add_audio_chunk audio_bytes s =
     (if is_stopped (audio_subject s) then s
      else
        (let s' = s\<lparr>audio_subject := subj_on_next audio_bytes (audio_subject s)\<rparr> in
         if observer (audio_subject s) = Subscribed
         then s'\<lparr>audio_tasks := audio_tasks s' @ [audio_bytes]\<rparr>
         else s'))"

text \<open>The event loop runs the oldest of the tasks the observer has created.\<close>

definition run_audio_task :: "env \<Rightarrow> manager \<Rightarrow> manager result" where
  "run_audio_task E s =
     (case audio_tasks s of
        [] \<Rightarrow> (None, s)
      | audio_bytes # rest \<Rightarrow> handle_audio_input E (Some audio_bytes) (s\<lparr>audio_tasks := rest\<rparr>))"

definition send_audio_content_end_event :: "env \<Rightarrow> manager \<Rightarrow> manager result" where
  "send_audio_content_end_event E s =
     (if \<not> is_active s then (None, s)
      else
        (case py_format CONTENT_END_EVENT [uuid_text (prompt_name s), uuid_text (audio_content_name s)] of
           Inl e \<Rightarrow> (Some e, s)
         | Inr content_end_event \<Rightarrow> send_raw_event E content_end_event s))"

definition send_prompt_end_event :: "env \<Rightarrow> manager \<Rightarrow> manager result" where
  "send_prompt_end_event E s =
     (if \<not> is_active s then (None, s)
      else
        (case py_format PROMPT_END_EVENT [uuid_text (prompt_name s)] of
           Inl e \<Rightarrow> (Some e, s)
         | Inr prompt_end_event \<Rightarrow> send_raw_event E prompt_end_event s))"

definition send_session_end_event :: "env \<Rightarrow> manager \<Rightarrow> manager result" where
  "send_session_end_event E s =
     (if \<not> is_active s then (None, s)
      else and_then (send_raw_event E SESSION_END_EVENT s) (\<lambda>s'. (None, s'\<lparr>is_active := False\<rparr>)))"

text \<open>\<^verbatim>\<open>input_stream.close()\<close>\<close>

definition close_transport :: "manager \<Rightarrow> manager result" where
  "close_transport s =
     (case stream_response s of
        None \<Rightarrow> (None, s)
      | Some tr \<Rightarrow>
          (case close_error tr of
             Some e \<Rightarrow> (Some e, s)
           | None \<Rightarrow> (None, s\<lparr>stream_response := Some (tr\<lparr>closed := True\<rparr>)\<rparr>)))"

definition cancel_response_task :: "manager \<Rightarrow> manager" where
  "cancel_response_task s =
     (if response_task s = Some Running then s\<lparr>response_task := Some Cancelled\<rparr> else s)"

definition close :: "env \<Rightarrow> manager \<Rightarrow> manager result" where
  "close E s =
     (if \<not> is_active s then (None, s)
      else
        (let s1 = s\<lparr>input_subject := subj_on_completed (input_subject s),
                    audio_subject := subj_on_completed (audio_subject s),
                    is_active := False\<rparr>;
             s2 = cancel_response_task s1
         in and_then (send_audio_content_end_event E s2) (\<lambda>s3.
            and_then (send_prompt_end_event E s3) (\<lambda>s4.
            and_then (send_session_end_event E s4) close_transport))))"

section \<open>The response dispatcher\<close>

text \<open>What one \<^verbatim>\<open>receive()\<close> of the loop of \<^verbatim>\<open>_process_responses\<close> yields: a result with its
  payload bytes (\<open>None\<close>: no value, or no bytes), the end of the stream
  (\<^verbatim>\<open>StopAsyncIteration\<close>) or another exception.\<close>

datatype received = Message "string option" | EndOfStream | ReceiveFailure error

text \<open>Lines 345 to 358: \<open>content_start\<close> is \<^verbatim>\<open>json_data['event']['contentStart']\<close>. An exception
  leaves the assignments made before it in place.\<close>

definition on_content_start :: "json \<Rightarrow> manager \<Rightarrow> manager result" where
  "on_content_start content_start s =
     (case py_getitem content_start ''role'' of
        Inl e \<Rightarrow> (Some e, s)
      | Inr r \<Rightarrow>
          (let s1 = s\<lparr>role := Some r\<rparr> in
           case py_in ''additionalModelFields'' content_start of
             Inl e \<Rightarrow> (Some e, s1)
           | Inr False \<Rightarrow> (None, s1)
           | Inr True \<Rightarrow>
               (case py_getitem content_start ''additionalModelFields'' of
                  Inl e \<Rightarrow> (Some e, s1)
                | Inr (JString t) \<Rightarrow>
                    (case json_loads t of
                       None \<Rightarrow> (None, s1)
                     | Some (JObject additional_fields) \<Rightarrow>
                         (if map_of additional_fields ''generationStage'' = Some (JString ''SPECULATIVE'')
                          then (None, s1\<lparr>display_assistant_text := True\<rparr>)
                          else (None, s1\<lparr>display_assistant_text := False\<rparr>))
                     | Some _ \<Rightarrow> (Some AttributeError, s1))
                | Inr _ \<Rightarrow> (Some TypeError, s1))))"

definition interrupted_marker :: string where
  \<open>interrupted_marker = ''{ "interrupted" : true }''\<close>

text \<open>Lines 362 to 372: \<open>ev\<close> is \<^verbatim>\<open>json_data['event']\<close>.\<close>

definition on_text_output :: "env \<Rightarrow> json \<Rightarrow> manager \<Rightarrow> manager result" where
  "on_text_output E ev s =
     (case py_getitem ev ''textOutput'' of
        Inl e \<Rightarrow> (Some e, s)
      | Inr text_output \<Rightarrow>
          (case py_getitem text_output ''content'' of
             Inl e \<Rightarrow> (Some e, s)
           | Inr text_content \<Rightarrow>
               (case py_in interrupted_marker text_content of
                  Inl e \<Rightarrow> (Some e, s)
                | Inr found \<Rightarrow>
                    (let s1 = (if found
                               then (if DEBUG E
                                     then s\<lparr>console := console s @ [Notice ''Barge-in detected. Stopping audio output.'']\<rparr>
                                     else s)\<lparr>barge_in := True\<rparr>
                               else s)
                     in if role s1 = Some (JString ''ASSISTANT'') \<and> display_assistant_text s1
                        then (None, s1\<lparr>console := console s1 @ [AssistantLine text_content]\<rparr>)
                        else if role s1 = Some (JString ''USER'')
                        then (None, s1\<lparr>console := console s1 @ [UserLine text_content]\<rparr>)
                        else (None, s1)))))"

text \<open>Lines 378 to 380. \<^verbatim>\<open>b64decode\<close> takes a text (or bytes); any other value is a
  \<^verbatim>\<open>TypeError\<close>.\<close>

definition on_audio_output :: "env \<Rightarrow> json \<Rightarrow> manager \<Rightarrow> manager result" where
  "on_audio_output E ev s =
     (case py_getitem ev ''audioOutput'' of
        Inl e \<Rightarrow> (Some e, s)
      | Inr audio_output \<Rightarrow>
          (case py_getitem audio_output ''content'' of
             Inl e \<Rightarrow> (Some e, s)
           | Inr (JString audio_content) \<Rightarrow>
               (case b64decode E audio_content of
                  None \<Rightarrow> (Some Base64Error, s)
                | Some audio_bytes \<Rightarrow>
                    (None, s\<lparr>audio_output_queue := audio_output_queue s @ [audio_bytes]\<rparr>))
           | Inr _ \<Rightarrow> (Some TypeError, s)))"

text \<open>Lines 342 to 380: the chain of tests on \<^verbatim>\<open>json_data\<close>.\<close>

definition dispatch_event :: "env \<Rightarrow> json \<Rightarrow> manager \<Rightarrow> manager result" where
  "dispatch_event E json_data s =
     (case py_in ''event'' json_data of
        Inl e \<Rightarrow> (Some e, s)
      | Inr False \<Rightarrow> (None, s)
      | Inr True \<Rightarrow>
          (case py_getitem json_data ''event'' of
             Inl e \<Rightarrow> (Some e, s)
           | Inr ev \<Rightarrow>
               (case py_in ''contentStart'' ev of
                  Inl e \<Rightarrow> (Some e, s)
                | Inr True \<Rightarrow>
                    (case py_getitem ev ''contentStart'' of
                       Inl e \<Rightarrow> (Some e, s)
                     | Inr content_start \<Rightarrow> on_content_start content_start s)
                | Inr False \<Rightarrow>
                    (case py_in ''contentEnd'' ev of
                       Inl e \<Rightarrow> (Some e, s)
                     | Inr True \<Rightarrow> (None, s)
                     | Inr False \<Rightarrow>
                         (case py_in ''textOutput'' ev of
                            Inl e \<Rightarrow> (Some e, s)
                          | Inr True \<Rightarrow> on_text_output E ev s
                          | Inr False \<Rightarrow>
                              (case py_in ''audioOutput'' ev of
                                 Inl e \<Rightarrow> (Some e, s)
                               | Inr True \<Rightarrow> on_audio_output E ev s
                               | Inr False \<Rightarrow> (None, s)))))))"

text \<open>Lines 338 to 384, for non-empty payload bytes. A payload that is not JSON is passed on
  as \<^verbatim>\<open>{"raw_data": ...}\<close>; every other exception leaves the \<^verbatim>\<open>try\<close>.\<close>

definition handle_payload :: "env \<Rightarrow> string \<Rightarrow> manager \<Rightarrow> manager result" where
  "handle_payload E bytes s =
     (if \<not> utf8_valid bytes then (Some UnicodeDecodeError, s)
      else
        (case json_loads bytes of
           None \<Rightarrow>
             (None, s\<lparr>output_subject :=
                        subj_on_next (JObject [(''raw_data'', JString bytes)]) (output_subject s)\<rparr>)
         | Some json_data \<Rightarrow>
             and_then (dispatch_event E json_data s)
               (\<lambda>s'. (None, s'\<lparr>output_subject := subj_on_next json_data (output_subject s')\<rparr>))))"

text \<open>One turn of the loop body (lines 333 to 391): the new state, and whether the loop goes
  on (\<open>False\<close>: \<^verbatim>\<open>break\<close>).\<close>

definition receive_step :: "env \<Rightarrow> received \<Rightarrow> manager \<Rightarrow> bool \<times> manager" where
  "receive_step E r s =
     (case r of
        EndOfStream \<Rightarrow> (False, s)
      | ReceiveFailure e \<Rightarrow> (False, s\<lparr>output_subject := subj_on_error e (output_subject s)\<rparr>)
      | Message None \<Rightarrow> (True, s)
      | Message (Some bytes) \<Rightarrow>
          if bytes = [] then (True, s)
          else
            (case handle_payload E bytes s of
               (Some e, s') \<Rightarrow> (False, s'\<lparr>output_subject := subj_on_error e (output_subject s')\<rparr>)
             | (None, s') \<Rightarrow> (True, s')))"

text \<open>The \<^verbatim>\<open>finally\<close> clause.\<close>

definition finish_responses :: "manager \<Rightarrow> manager" where
  "finish_responses s =
     (if is_active s then s\<lparr>output_subject := subj_on_completed (output_subject s)\<rparr> else s)"

datatype loop_status = Exited | Suspended

text \<open>\<^verbatim>\<open>_process_responses\<close> on the results the stream delivers, in order. With no result left
  the task is suspended in \<^verbatim>\<open>await\<close>.\<close>

fun process_responses :: "env \<Rightarrow> received list \<Rightarrow> manager \<Rightarrow> loop_status \<times> manager" where
  "process_responses E [] s =
     (if is_active s then (Suspended, s) else (Exited, finish_responses s))"
| "process_responses E (r # rs) s =
     (if \<not> is_active s then (Exited, finish_responses s)
      else
        (case receive_step E r s of
           (False, s') \<Rightarrow> (Exited, finish_responses s')
         | (True, s') \<Rightarrow> process_responses E rs s'))"

text \<open>The response task, when the stream delivers one more result.\<close>

definition deliver :: "env \<Rightarrow> received \<Rightarrow> manager \<Rightarrow> manager" where
  "deliver E r s =
     (if response_task s = Some Running then
        (case process_responses E [r] s of
           (Exited, s') \<Rightarrow> s'\<lparr>response_task := Some Finished\<rparr>
         | (Suspended, s') \<Rightarrow> s')
      else s)"

section \<open>The playback loop\<close>

text \<open>The output device (\<^verbatim>\<open>output_stream\<close>). \<open>write_script\<close> gives the outcome of the coming
  calls of \<^verbatim>\<open>write\<close> (\<open>True\<close>: the call raises PyAudio's error, \<open>DeviceError\<close> here; past the
  end of the script every call succeeds); \<open>written\<close> lists the chunks it played.\<close>

record device =
  dev_active :: bool
  write_script :: "bool list"
  written :: "string list"

definition device_write :: "string \<Rightarrow> device \<Rightarrow> device result" where
  "device_write chunk dev =
     (case write_script dev of
        [] \<Rightarrow> (None, dev\<lparr>written := written dev @ [chunk]\<rparr>)
      | False # rest \<Rightarrow> (None, dev\<lparr>write_script := rest, written := written dev @ [chunk]\<rparr>)
      | True # rest \<Rightarrow> (Some DeviceError, dev\<lparr>write_script := rest\<rparr>))"

text \<open>
  \<^verbatim>\<open>play_output_audio\<close> is a coroutine: other tasks run only while it is suspended in an
  \<^verbatim>\<open>await\<close>. The model makes one step from one suspension to the next; \<open>play_pc\<close> says where
  the task is suspended:
  \<^item> \<open>AtLoopHead\<close>: not yet started, or in one of the \<^verbatim>\<open>asyncio.sleep(0.05)\<close>; it resumes at
    the test of the \<^verbatim>\<open>while\<close>;
  \<^item> \<open>AwaitingBuffer\<close>: in \<^verbatim>\<open>wait_for(queue.get(), timeout=0.1)\<close>;
  \<^item> \<open>Writing data i\<close>: in \<^verbatim>\<open>run_in_executor(None, write_chunk, chunk)\<close> for the chunk of
    \<open>data\<close> that starts at index \<open>i\<close>;
  \<^item> \<open>Yielding data i\<close>: in the \<^verbatim>\<open>asyncio.sleep(0.001)\<close> after that chunk;
  \<^item> \<open>PlaybackDone\<close>: the coroutine has returned.
\<close>

datatype play_pc =
    AtLoopHead
  | AwaitingBuffer
  | Writing string nat
  | Yielding string nat
  | PlaybackDone

record streamer =
  stream_manager :: manager
  is_streaming :: bool
  output_stream :: "device option"
  pc :: play_pc
  stdout_lines :: "console_line list"

text \<open>\<^verbatim>\<open>while not queue.empty(): queue.get_nowait()\<close>\<close>

fun drain_queue :: "string list \<Rightarrow> string list" where
  "drain_queue [] = []"
| "drain_queue (x # q) = drain_queue q"

text \<open>From the test of the \<^verbatim>\<open>while\<close> to the next suspension (lines 85 to 104): the
  loop ends, or the queue is flushed and the task pauses, or the task waits for a buffer.
  These first statements of the \<^verbatim>\<open>try\<close> block raise nothing (\<^verbatim>\<open>QueueEmpty\<close> is caught in
  place).\<close>

definition loop_head :: "streamer \<Rightarrow> streamer" where
  "loop_head a =
     (if \<not> is_streaming a then a\<lparr>pc := PlaybackDone\<rparr>
      else if barge_in (stream_manager a) then
        a\<lparr>stream_manager :=
             (stream_manager a)\<lparr>audio_output_queue := drain_queue (audio_output_queue (stream_manager a)),
                                barge_in := False\<rparr>,
           pc := AtLoopHead\<rparr>
      else a\<lparr>pc := AwaitingBuffer\<rparr>)"

text \<open>The \<^verbatim>\<open>except Exception\<close> clause (lines 134 to 138); the task is then suspended in
  \<^verbatim>\<open>asyncio.sleep(0.05)\<close>.\<close>

definition playback_failed :: "error \<Rightarrow> streamer \<Rightarrow> streamer" where
  "playback_failed e a =
     (if is_streaming a then a\<lparr>stdout_lines := stdout_lines a @ [PlaybackError e], pc := AtLoopHead\<rparr>
      else a\<lparr>pc := AtLoopHead\<rparr>)"

text \<open>The two \<^verbatim>\<open>except\<close> clauses: a timeout of the wait goes on with the next turn at once.\<close>

definition on_exception :: "error \<Rightarrow> streamer \<Rightarrow> streamer" where
  "on_exception e a = (if e = TimeoutError then loop_head a else playback_failed e a)"

text \<open>The top of the body of the \<^verbatim>\<open>for\<close> for the index \<open>i\<close>: the test of \<^verbatim>\<open>is_streaming\<close>
  (\<^verbatim>\<open>break\<close> leaves the \<^verbatim>\<open>try\<close> block), then the chunk goes to the executor.\<close>

definition begin_chunk :: "string \<Rightarrow> nat \<Rightarrow> streamer \<Rightarrow> streamer" where
  "begin_chunk audio_data i a =
     (if \<not> is_streaming a then a\<lparr>pc := AtLoopHead\<rparr> else a\<lparr>pc := Writing audio_data i\<rparr>)"

text \<open>\<^verbatim>\<open>write_chunk\<close>, run by the executor.\<close>

definition write_chunk :: "string \<Rightarrow> streamer \<Rightarrow> streamer result" where
  "write_chunk chunk a =
     (case output_stream a of
        None \<Rightarrow> (None, a)
      | Some dev \<Rightarrow>
          if dev_active dev then
            (case device_write chunk dev of (r, dev') \<Rightarrow> (r, a\<lparr>output_stream := Some dev'\<rparr>))
          else (None, a))"

text \<open>The rest of the \<^verbatim>\<open>try\<close> block (lines 100 to 129), from the suspension the task is in
  to the next one: the exception it raises, if any. \<^verbatim>\<open>range(0, len(audio_data), chunk_size)\<close> raises
  \<^verbatim>\<open>ValueError\<close> for the step 0 and is empty for a negative step. A state with
  \<open>pc = AtLoopHead\<close> in the result says the block was left without an exception.\<close>

definition play_try :: "env \<Rightarrow> streamer \<Rightarrow> streamer result" where
  "play_try E a =
     (case pc a of
        AwaitingBuffer \<Rightarrow>
          (case audio_output_queue (stream_manager a) of
             [] \<Rightarrow> (Some TimeoutError, a)
           | audio_data # q \<Rightarrow>
               (let a1 = a\<lparr>stream_manager := (stream_manager a)\<lparr>audio_output_queue := q\<rparr>\<rparr> in
                if audio_data \<noteq> [] \<and> is_streaming a1 \<and>
                   (case output_stream a1 of None \<Rightarrow> False | Some dev \<Rightarrow> dev_active dev)
                then
                  (if CHUNK_SIZE E = 0 then (Some ValueError, a1)
                   else if CHUNK_SIZE E < 0 then (None, a1\<lparr>pc := AtLoopHead\<rparr>)
                   else (None, begin_chunk audio_data 0 a1))
                else (None, a1\<lparr>pc := AtLoopHead\<rparr>)))
      | Writing audio_data i \<Rightarrow>
          (let end = min (i + nat (CHUNK_SIZE E)) (length audio_data);
               chunk = take (end - i) (drop i audio_data)
           in case write_chunk chunk a of
                (Some e, a') \<Rightarrow> (Some e, a')
              | (None, a') \<Rightarrow> (None, a'\<lparr>pc := Yielding audio_data i\<rparr>))
      | Yielding audio_data i \<Rightarrow>
          (if i + nat (CHUNK_SIZE E) < length audio_data
           then (None, begin_chunk audio_data (i + nat (CHUNK_SIZE E)) a)
           else (None, a\<lparr>pc := AtLoopHead\<rparr>))
      | _ \<Rightarrow> (None, a))"

text \<open>The playback task is resumed and runs to its next suspension.\<close>

definition play_step :: "env \<Rightarrow> streamer \<Rightarrow> streamer" where
  "play_step E a =
     (case pc a of
        PlaybackDone \<Rightarrow> a
      | AtLoopHead \<Rightarrow> loop_head a
      | _ \<Rightarrow>
          (case play_try E a of
             (Some e, a') \<Rightarrow> on_exception e a'
           | (None, a') \<Rightarrow> if pc a' = AtLoopHead then loop_head a' else a'))"

text \<open>The two tasks on one event loop: the stream delivers a result to the dispatcher, or
  the playback task is resumed.\<close>

datatype event = Deliver received | Playback



section \<open>Observations and example states\<close>

text \<open>The messages the stream has accepted from the session.\<close>

definition sent_log :: "manager \<Rightarrow> string list" where
  "sent_log s = (case stream_response s of None \<Rightarrow> [] | Some tr \<Rightarrow> sent tr)"

text \<open>An environment, a fresh manager and an active session, for evaluating the model. The
  two base64 functions of the example know one word: the bytes \<^verbatim>\<open>ABC\<close> are \<^verbatim>\<open>QUJD\<close>.\<close>

definition demo_env :: env where
  "demo_env =
     \<lparr>DEBUG = False, CHUNK_SIZE = 2,
      b64encode = (\<lambda>b. if b = ''ABC'' then ''QUJD'' else []),
      b64decode = (\<lambda>t. if t = ''QUJD'' then Some ''ABC'' else None)\<rparr>"

definition demo_transport :: transport where
  "demo_transport = \<lparr>send_script = [], sent = [], close_error = None, closed = False\<rparr>"

definition demo_manager :: manager where
  "demo_manager =
     init_manager ''amazon.nova-sonic-v1:0'' ''us-east-1'' ''hello'' ''matthew'' 1 2 3"

definition demo_active :: manager where
  "demo_active =
     demo_manager\<lparr>stream_response := Some demo_transport, is_active := True,
       bedrock_client := True, scheduler := True, response_task := Some Running,
       input_subject := new_subject\<lparr>observer := Subscribed\<rparr>,
       audio_subject := new_subject\<lparr>observer := Subscribed\<rparr>\<rparr>"

text \<open>The events of \<open>evs\<close> the stream accepts when its coming sends end as \<open>script\<close> says:
  an event whose send raises is left out.\<close>

fun accepted :: "string list \<Rightarrow> error option list \<Rightarrow> string list" where
  "accepted [] script = []"
| "accepted (ev # evs) [] = ev # evs"
| "accepted (ev # evs) (None # script) = ev # accepted evs script"
| "accepted (ev # evs) (Some e # script) = accepted evs script"

text \<open>A stream whose third send raises.\<close>

definition failing_transport :: transport where
  "failing_transport = \<lparr>send_script = [None, None, Some SendError], sent = [], close_error = None, closed = False\<rparr>"

text \<open>Two inbound texts: a content start without \<^verbatim>\<open>additionalModelFields\<close>, and the
  \<^verbatim>\<open>additionalModelFields\<close> of speculative content.\<close>

definition plain_content_start_msg :: string where
  \<open>plain_content_start_msg = ''{"event": {"contentStart": {"role": "ASSISTANT"}}}''\<close>

definition speculative_fields :: string where
  \<open>speculative_fields = ''{"generationStage":"SPECULATIVE"}''\<close>

text \<open>A device whose next write raises, and a playback task suspended in that write.\<close>

definition failing_device :: device where
  "failing_device = \<lparr>dev_active = True, write_script = [True], written = []\<rparr>"

definition demo_writing :: streamer where
  "demo_writing =
     \<lparr>stream_manager = demo_active, is_streaming = True, output_stream = Some failing_device,
      pc = Writing ''ABC'' 0, stdout_lines = []\<rparr>"











definition surrogate_prompt :: string where
  "surrogate_prompt = [CHR 0xED, CHR 0xA0, CHR 0x80]"







section \<open>The templates are well-formed format strings\<close>

lemma format_START_PROMPT: "\<exists>ev. py_format START_PROMPT_EVENT [p, v] = Inr ev"
  by (simp add: START_PROMPT_EVENT_def)

lemma format_CONTENT_START: "\<exists>ev. py_format CONTENT_START_EVENT [p, c] = Inr ev"
  by (simp add: CONTENT_START_EVENT_def)

lemma format_AUDIO_EVENT: "\<exists>ev. py_format AUDIO_EVENT_TEMPLATE [p, c, b] = Inr ev"
  by (simp add: AUDIO_EVENT_TEMPLATE_def)

lemma format_TEXT_CONTENT_START: "\<exists>ev. py_format TEXT_CONTENT_START_EVENT [p, c, r] = Inr ev"
  by (simp add: TEXT_CONTENT_START_EVENT_def)

lemma format_TEXT_INPUT: "\<exists>ev. py_format TEXT_INPUT_EVENT [p, c, t] = Inr ev"
  by (simp add: TEXT_INPUT_EVENT_def)

lemma format_CONTENT_END: "\<exists>ev. py_format CONTENT_END_EVENT [p, c] = Inr ev"
  by (simp add: CONTENT_END_EVENT_def)

lemma format_PROMPT_END: "\<exists>ev. py_format PROMPT_END_EVENT [p] = Inr ev"
  by (simp add: PROMPT_END_EVENT_def)

section \<open>Events that can be encoded\<close>

text \<open>A text of ASCII characters is well-formed UTF-8, so are the session names; and a
  template filled in is well-formed exactly when the texts put in are.\<close>

lemma ascii_not_continuation:
  "byte_in c 0x00 0x7F \<Longrightarrow> 0x80 \<le> lo \<Longrightarrow> \<not> byte_in c lo hi"
  by (simp add: byte_in_def)

lemma utf8_valid_before_ascii:
  assumes c: "byte_in c 0x00 0x7F"
  shows "utf8_valid (v @ c # rest) = (utf8_valid v \<and> utf8_valid rest)"
proof (induction v rule: utf8_valid.induct)
  case 1
  show ?case using c by simp
next
  case (2 a r)
  note nc = ascii_not_continuation [OF c]
  show ?case
  proof (cases "byte_in a 0x00 0x7F")
    case True
    then show ?thesis using 2 by simp
  next
    case F1: False
    show ?thesis
    proof (cases "byte_in a 0xC2 0xDF")
      case True
      show ?thesis
      proof (cases r)
        case Nil
        then show ?thesis using F1 True nc by (simp split: list.split)
      next
        case (Cons b1 r1)
        then show ?thesis using F1 True 2 by simp
      qed
    next
      case F2: False
      show ?thesis
      proof (cases "byte_in a 0xE0 0xEF")
        case True
        show ?thesis
        proof (cases r)
          case Nil
          then show ?thesis using F1 F2 True nc by (simp split: list.split)
        next
          case r1: (Cons b1 r1)
          show ?thesis
          proof (cases r1)
            case Nil
            then show ?thesis using F1 F2 True r1 nc by (simp split: list.split)
          next
            case (Cons b2 r2)
            then show ?thesis using F1 F2 True r1 2 by simp
          qed
        qed
      next
        case F3: False
        show ?thesis
        proof (cases "byte_in a 0xF0 0xF4")
          case True
          show ?thesis
          proof (cases r)
            case Nil
            then show ?thesis using F1 F2 F3 True nc by (simp split: list.split)
          next
            case r1: (Cons b1 r1)
            show ?thesis
            proof (cases r1)
              case Nil
              then show ?thesis using F1 F2 F3 True r1 nc by (simp split: list.split)
            next
              case r2: (Cons b2 r2)
              show ?thesis
              proof (cases r2)
                case Nil
                then show ?thesis using F1 F2 F3 True r1 r2 nc by (simp split: list.split)
              next
                case (Cons b3 r3)
                then show ?thesis using F1 F2 F3 True r1 r2 2 by simp
              qed
            qed
          qed
        next
          case False
          then show ?thesis using F1 F2 F3 by simp
        qed
      qed
    qed
  qed
qed

lemma ascii_utf8_valid: "list_all (\<lambda>c. byte_in c 0x00 0x7F) s \<Longrightarrow> utf8_valid s"
  by (induction s) simp_all

lemma hex_digit_ascii: "byte_in (hex_digit n) 0x00 0x7F"
proof -
  have all: "\<forall>c \<in> set ''0123456789abcdef''. byte_in c 0x00 0x7F"
    by (simp add: byte_in_def)
  have "nat (n mod 16) < length ''0123456789abcdef''" by simp
  then have "''0123456789abcdef'' ! nat (n mod 16) \<in> set ''0123456789abcdef''"
    by (rule nth_mem)
  then show ?thesis
    unfolding hex_digit_def using all by blast
qed

lemma hex_digits_ascii: "list_all (\<lambda>c. byte_in c 0x00 0x7F) (hex_digits k n)"
  by (induction k arbitrary: n) (simp_all add: hex_digit_ascii)

lemma list_all_take: "list_all P xs \<Longrightarrow> list_all P (take n xs)"
  by (auto simp: list_all_iff dest: in_set_takeD)

lemma list_all_drop: "list_all P xs \<Longrightarrow> list_all P (drop n xs)"
  by (auto simp: list_all_iff dest: in_set_dropD)

lemma dash_ascii: "byte_in (CHR ''-'') 0x00 0x7F"
  by (simp add: byte_in_def)

lemma uuid_text_valid: "utf8_valid (uuid_text u)"
  by (rule ascii_utf8_valid)
    (simp add: uuid_text_def Let_def list_all_take list_all_drop hex_digits_ascii dash_ascii)

lemma valid_START_SESSION: "utf8_valid START_SESSION_EVENT"
  by (simp add: START_SESSION_EVENT_def byte_in_def)

lemma valid_SESSION_END: "utf8_valid SESSION_END_EVENT"
  by (simp add: SESSION_END_EVENT_def byte_in_def)

lemma valid_START_PROMPT:
  "\<exists>ev. py_format START_PROMPT_EVENT [p, v] = Inr ev \<and>
        utf8_valid ev = (utf8_valid p \<and> utf8_valid v)"
  by (simp add: START_PROMPT_EVENT_def utf8_valid_before_ascii byte_in_def)

lemma valid_TEXT_CONTENT_START:
  "\<exists>ev. py_format TEXT_CONTENT_START_EVENT [p, c, r] = Inr ev \<and>
        utf8_valid ev = (utf8_valid p \<and> utf8_valid c \<and> utf8_valid r)"
  by (simp add: TEXT_CONTENT_START_EVENT_def utf8_valid_before_ascii byte_in_def)

lemma valid_TEXT_INPUT:
  "\<exists>ev. py_format TEXT_INPUT_EVENT [p, c, t] = Inr ev \<and>
        utf8_valid ev = (utf8_valid p \<and> utf8_valid c \<and> utf8_valid t)"
  by (simp add: TEXT_INPUT_EVENT_def utf8_valid_before_ascii byte_in_def)

lemma valid_CONTENT_END:
  "\<exists>ev. py_format CONTENT_END_EVENT [p, c] = Inr ev \<and>
        utf8_valid ev = (utf8_valid p \<and> utf8_valid c)"
  by (simp add: CONTENT_END_EVENT_def utf8_valid_before_ascii byte_in_def)

lemma valid_CONTENT_START:
  "\<exists>ev. py_format CONTENT_START_EVENT [p, c] = Inr ev \<and>
        utf8_valid ev = (utf8_valid p \<and> utf8_valid c)"
  by (simp add: CONTENT_START_EVENT_def utf8_valid_before_ascii byte_in_def)

section \<open>Sending on a session that is not active\<close>

lemma send_raw_event_noop:
  "stream_response s = None \<or> \<not> is_active s \<Longrightarrow> send_raw_event E ev s = (None, s)"
  by (auto simp: send_raw_event_def split: option.splits)

lemma end_events_noop:
  assumes "\<not> is_active s"
  shows "send_audio_content_end_event E s = (None, s)"
    and "send_prompt_end_event E s = (None, s)"
    and "send_session_end_event E s = (None, s)"
  using assms
  by (simp_all add: send_audio_content_end_event_def send_prompt_end_event_def
      send_session_end_event_def)

text \<open>
  C9. When the stream is not there (\<^verbatim>\<open>stream_response\<close> is \<^verbatim>\<open>None\<close>) or the session is not
  active, \<^verbatim>\<open>send_raw_event\<close> returns without an exception and leaves the whole state, the
  stream with it, as it was: nothing is sent. So on a session that is not active every send
  operation (the audio content start and end, an audio chunk, the prompt end, the session
  end) returns without an exception and changes nothing.
\<close>

theorem inactive_session_sends_nothing:
  "(stream_response s = None \<or> \<not> is_active s \<longrightarrow> send_raw_event E ev s = (None, s)) \<and>
   (\<not> is_active s \<longrightarrow>
      send_audio_content_start_event E s = (None, s) \<and>
      handle_audio_input E audio_bytes s = (None, s) \<and>
      send_audio_content_end_event E s = (None, s) \<and>
      send_prompt_end_event E s = (None, s) \<and>
      send_session_end_event E s = (None, s))"
proof -
  obtain cs where cs: "py_format CONTENT_START_EVENT [uuid_text (prompt_name s), uuid_text (audio_content_name s)] = Inr cs"
    using format_CONTENT_START by blast
  have audio: "\<not> is_active s \<Longrightarrow> handle_audio_input E audio_bytes s = (None, s)"
    by (auto simp: handle_audio_input_def send_raw_event_noop split: option.splits sum.splits)
  show ?thesis
    using cs audio
    by (simp add: send_raw_event_noop send_audio_content_start_event_def end_events_noop)
qed

theorem inactive_session_sends_nothing_witness:
  "\<not> is_active (demo_active\<lparr>is_active := False\<rparr>) \<and>
   send_raw_event demo_env ''{}'' (demo_active\<lparr>is_active := False\<rparr>) =
     (None, demo_active\<lparr>is_active := False\<rparr>) \<and>
   send_raw_event demo_env ''{}'' demo_manager = (None, demo_manager) \<and>
   handle_audio_input demo_env (Some ''ABC'') (demo_active\<lparr>is_active := False\<rparr>) =
     (None, demo_active\<lparr>is_active := False\<rparr>) \<and>
   send_session_end_event demo_env (demo_active\<lparr>is_active := False\<rparr>) =
     (None, demo_active\<lparr>is_active := False\<rparr>) \<and>
   sent_log (snd (send_audio_content_start_event demo_env (demo_active\<lparr>is_active := False\<rparr>))) = []"
  using inactive_session_sends_nothing [of "demo_active\<lparr>is_active := False\<rparr>" demo_env "''{}''" "Some ''ABC''"]
    inactive_session_sends_nothing [of demo_manager demo_env "''{}''" None]
  by (simp add: demo_manager_def init_manager_def demo_active_def sent_log_def demo_transport_def)

section \<open>Closing the session\<close>

lemma close_active:
  "is_active s \<Longrightarrow>
   close E s =
     close_transport
       (cancel_response_task
          (s\<lparr>input_subject := subj_on_completed (input_subject s),
             audio_subject := subj_on_completed (audio_subject s),
             is_active := False\<rparr>))"
  by (simp add: close_def Let_def end_events_noop and_then_def cancel_response_task_def)

lemma close_transport_keeps:
  "is_active (snd (close_transport s)) = is_active s"
  "sent_log (snd (close_transport s)) = sent_log s"
  by (auto simp: close_transport_def sent_log_def split: option.splits)

lemma close_leaves_inactive: "\<not> is_active (snd (close E s))"
proof (cases "is_active s")
  case True
  then show ?thesis
    by (simp add: close_active close_transport_keeps cancel_response_task_def)
next
  case False
  then show ?thesis by (simp add: close_def)
qed

text \<open>
  C6. \<^verbatim>\<open>close()\<close> called a second time, on the state the first call left, returns without
  an exception and leaves that state as it is (nothing more is sent, nothing more is
  released); and \<^verbatim>\<open>close()\<close> on any session that is not active returns without an exception
  and changes nothing.
\<close>

theorem close_twice_is_close_once:
  "close E (snd (close E s)) = (None, snd (close E s)) \<and>
   (\<not> is_active s \<longrightarrow> close E s = (None, s))"
  using close_leaves_inactive [of E s] by (simp add: close_def)

theorem close_twice_is_close_once_witness:
  "\<not> is_active demo_manager \<and> close demo_env demo_manager = (None, demo_manager) \<and>
   close demo_env (snd (close demo_env demo_active)) = (None, snd (close demo_env demo_active)) \<and>
   (case stream_response (snd (close demo_env demo_active)) of
      None \<Rightarrow> False | Some tr \<Rightarrow> closed tr)"
  using close_twice_is_close_once [of demo_env demo_manager]
    close_twice_is_close_once [of demo_env demo_active]
  by (simp add: demo_manager_def init_manager_def demo_active_def close_active
      cancel_response_task_def close_transport_def demo_transport_def)

text \<open>
  C2. \<^verbatim>\<open>close()\<close> sets \<^verbatim>\<open>is_active\<close> to false before it calls the three operations that send
  the terminal events, and each of them returns at once on a session that is not active. So
  \<^verbatim>\<open>close()\<close> never transmits a terminal event: whatever the session, after \<^verbatim>\<open>close()\<close> the
  stream has accepted exactly the messages it had accepted before.
\<close>

theorem close_transmits_nothing: "sent_log (snd (close E s)) = sent_log s"
proof (cases "is_active s")
  case True
  define s2 where
    "s2 = cancel_response_task
            (s\<lparr>input_subject := subj_on_completed (input_subject s),
               audio_subject := subj_on_completed (audio_subject s),
               is_active := False\<rparr>)"
  have "close E s = close_transport s2"
    using True by (simp add: close_active s2_def)
  moreover have "sent_log s2 = sent_log s"
    by (simp add: s2_def cancel_response_task_def sent_log_def)
  ultimately show ?thesis
    by (simp add: close_transport_keeps)
next
  case False
  then show ?thesis by (simp add: close_def)
qed

section \<open>Starting the session\<close>

lemma init_events_ok:
  "\<exists>pe ts ti te.
     py_format START_PROMPT_EVENT [uuid_text (prompt_name s), voice_id s] = Inr pe \<and>
     py_format TEXT_CONTENT_START_EVENT
       [uuid_text (prompt_name s), uuid_text (content_name s), ''SYSTEM''] = Inr ts \<and>
     py_format TEXT_INPUT_EVENT
       [uuid_text (prompt_name s), uuid_text (content_name s), system_prompt s] = Inr ti \<and>
     py_format CONTENT_END_EVENT [uuid_text (prompt_name s), uuid_text (content_name s)] = Inr te \<and>
     init_events s = Inr [START_SESSION_EVENT, pe, ts, ti, te] \<and>
     utf8_valid pe = utf8_valid (voice_id s) \<and> utf8_valid ts \<and>
     utf8_valid ti = utf8_valid (system_prompt s) \<and> utf8_valid te"
proof -
  obtain pe where 1: "py_format START_PROMPT_EVENT [uuid_text (prompt_name s), voice_id s] = Inr pe"
    "utf8_valid pe = (utf8_valid (uuid_text (prompt_name s)) \<and> utf8_valid (voice_id s))"
    using valid_START_PROMPT by blast
  obtain ts where 2: "py_format TEXT_CONTENT_START_EVENT
       [uuid_text (prompt_name s), uuid_text (content_name s), ''SYSTEM''] = Inr ts"
    "utf8_valid ts = (utf8_valid (uuid_text (prompt_name s)) \<and>
       utf8_valid (uuid_text (content_name s)) \<and> utf8_valid ''SYSTEM'')"
    using valid_TEXT_CONTENT_START by blast
  obtain ti where 3: "py_format TEXT_INPUT_EVENT
       [uuid_text (prompt_name s), uuid_text (content_name s), system_prompt s] = Inr ti"
    "utf8_valid ti = (utf8_valid (uuid_text (prompt_name s)) \<and>
       utf8_valid (uuid_text (content_name s)) \<and> utf8_valid (system_prompt s))"
    using valid_TEXT_INPUT by blast
  obtain te where 4: "py_format CONTENT_END_EVENT
       [uuid_text (prompt_name s), uuid_text (content_name s)] = Inr te"
    "utf8_valid te = (utf8_valid (uuid_text (prompt_name s)) \<and>
       utf8_valid (uuid_text (content_name s)))"
    using valid_CONTENT_END by blast
  have sys: "utf8_valid ''SYSTEM''" by (simp add: byte_in_def)
  show ?thesis
    using 1 2 3 4 sys by (simp add: init_events_def uuid_text_valid)
qed

lemma send_raw_event_active:
  assumes "is_active s" "stream_response s = Some tr" "utf8_valid ev"
  shows "\<exists>s' tr'. send_raw_event E ev s = (None, s') \<and> is_active s' \<and>
           stream_response s' = Some tr' \<and>
           sent tr' = sent tr @ accepted [ev] (send_script tr) \<and>
           send_script tr' = tl (send_script tr)"
proof (cases "send_script tr")
  case Nil
  then show ?thesis
    using assms
    by (auto simp: send_raw_event_def py_encode_def transport_send_def split: option.splits)
next
  case (Cons o1 rest)
  then show ?thesis
    using assms
    by (cases o1)
      (auto simp: send_raw_event_def py_encode_def transport_send_def split: option.splits)
qed

lemma send_raw_event_unencodable:
  assumes "is_active s" "stream_response s = Some tr" "\<not> utf8_valid ev"
  shows "send_raw_event E ev s = (Some UnicodeEncodeError, s)"
  using assms by (simp add: send_raw_event_def py_encode_def)

lemma accepted_Nil: "accepted evs [] = evs"
  by (cases evs) auto

lemma accepted_Cons: "accepted (ev # evs) script = accepted [ev] script @ accepted evs (tl script)"
proof (cases script)
  case Nil
  then show ?thesis by (simp add: accepted_Nil)
next
  case (Cons o1 rest)
  then show ?thesis by (cases o1) (simp_all add: accepted_Nil)
qed

lemma send_all_result:
  "is_active s \<Longrightarrow> stream_response s = Some tr \<Longrightarrow>
   \<exists>s' tr'. send_all E evs s =
       ((if list_all utf8_valid evs then None else Some UnicodeEncodeError), s') \<and>
     is_active s' \<and> stream_response s' = Some tr' \<and>
     sent tr' = sent tr @ accepted (takeWhile utf8_valid evs) (send_script tr)"
proof (induction evs arbitrary: s tr)
  case Nil
  then show ?case by simp
next
  case (Cons ev evs)
  show ?case
  proof (cases "utf8_valid ev")
    case True
    obtain s1 tr1 where 1: "send_raw_event E ev s = (None, s1)" "is_active s1"
      "stream_response s1 = Some tr1" "sent tr1 = sent tr @ accepted [ev] (send_script tr)"
      "send_script tr1 = tl (send_script tr)"
      using send_raw_event_active [OF Cons.prems True] by blast
    obtain s' tr' where 2: "send_all E evs s1 =
        ((if list_all utf8_valid evs then None else Some UnicodeEncodeError), s')" "is_active s'"
      "stream_response s' = Some tr'"
      "sent tr' = sent tr1 @ accepted (takeWhile utf8_valid evs) (send_script tr1)"
      using Cons.IH [OF 1(2) 1(3)] by blast
    show ?thesis
      using True 1 2 accepted_Cons [of ev "takeWhile utf8_valid evs" "send_script tr"]
      by (simp add: and_then_def)
  next
    case False
    then show ?thesis
      using Cons.prems send_raw_event_unencodable [OF Cons.prems False, of E]
      by (simp add: and_then_def)
  qed
qed

text \<open>
  C1, as the code has it. \<^verbatim>\<open>initialize_stream\<close> sets \<^verbatim>\<open>is_active\<close> as soon as the stream is
  open, before any of the five initialization events is sent; \<^verbatim>\<open>send_raw_event\<close> sends only
  on an active session, it encodes the event before its \<^verbatim>\<open>try\<close>, and it catches the exception
  of a failing send itself.
  \<^item> When the client cannot be built, the exception reaches the caller and the session is
    left as it was.
  \<^item> When the stream cannot be opened, the exception reaches the caller, and the session is
    not active.
  \<^item> When the stream is open and the voice and the system prompt can be encoded,
    \<^verbatim>\<open>initialize_stream\<close> returns without an exception and the session is active, whatever
    the sends do. The five events (session start, prompt start, content start of the system
    text, text input of the system prompt, content end) are attempted in this order, and
    the stream has accepted those whose send did not raise.
  \<^item> When the stream is open and the voice or the system prompt cannot be encoded, the
    \<^verbatim>\<open>UnicodeEncodeError\<close> of the first such event reaches the caller, the session is not
    active, and only the events before that one have been attempted.
\<close>

theorem initialize_stream_outcomes:
  "(\<forall>e. \<not> bedrock_client s0 \<and> client_outcome w = Some e \<longrightarrow>
        initialize_stream E w s0 = (Some e, s0)) \<and>
   (\<forall>e. (bedrock_client s0 \<or> client_outcome w = None) \<and> connect_outcome w = Inl e \<longrightarrow>
        fst (initialize_stream E w s0) = Some e \<and>
        \<not> is_active (snd (initialize_stream E w s0))) \<and>
   (\<forall>tr. (bedrock_client s0 \<or> client_outcome w = None) \<and> connect_outcome w = Inr tr \<longrightarrow>
        (\<exists>pe ts ti te.
           py_format START_PROMPT_EVENT [uuid_text (prompt_name s0), voice_id s0] = Inr pe \<and>
           py_format TEXT_CONTENT_START_EVENT
             [uuid_text (prompt_name s0), uuid_text (content_name s0), ''SYSTEM''] = Inr ts \<and>
           py_format TEXT_INPUT_EVENT
             [uuid_text (prompt_name s0), uuid_text (content_name s0), system_prompt s0] = Inr ti \<and>
           py_format CONTENT_END_EVENT
             [uuid_text (prompt_name s0), uuid_text (content_name s0)] = Inr te \<and>
           (utf8_valid (voice_id s0) \<and> utf8_valid (system_prompt s0) \<longrightarrow>
              fst (initialize_stream E w s0) = None \<and>
              is_active (snd (initialize_stream E w s0)) \<and>
              response_task (snd (initialize_stream E w s0)) = Some Running \<and>
              sent_log (snd (initialize_stream E w s0)) =
                sent tr @ accepted [START_SESSION_EVENT, pe, ts, ti, te] (send_script tr)) \<and>
           (\<not> utf8_valid (voice_id s0) \<longrightarrow>
              fst (initialize_stream E w s0) = Some UnicodeEncodeError \<and>
              \<not> is_active (snd (initialize_stream E w s0)) \<and>
              sent_log (snd (initialize_stream E w s0)) =
                sent tr @ accepted [START_SESSION_EVENT] (send_script tr)) \<and>
           (utf8_valid (voice_id s0) \<and> \<not> utf8_valid (system_prompt s0) \<longrightarrow>
              fst (initialize_stream E w s0) = Some UnicodeEncodeError \<and>
              \<not> is_active (snd (initialize_stream E w s0)) \<and>
              sent_log (snd (initialize_stream E w s0)) =
                sent tr @ accepted [START_SESSION_EVENT, pe, ts] (send_script tr))))"
proof (intro conjI allI impI)
  fix e assume "\<not> bedrock_client s0 \<and> client_outcome w = Some e"
  then show "initialize_stream E w s0 = (Some e, s0)"
    by (simp add: initialize_stream_def)
next
  fix e assume a: "(bedrock_client s0 \<or> client_outcome w = None) \<and> connect_outcome w = Inl e"
  then show "fst (initialize_stream E w s0) = Some e"
    by (auto simp: initialize_stream_def init_failed_def)
  from a show "\<not> is_active (snd (initialize_stream E w s0))"
    by (auto simp: initialize_stream_def init_failed_def)
next
  fix tr assume a: "(bedrock_client s0 \<or> client_outcome w = None) \<and> connect_outcome w = Inr tr"
  define s2 where "s2 = s0\<lparr>bedrock_client := True, scheduler := True,
                            stream_response := Some tr, is_active := True\<rparr>"
  have same: "prompt_name s2 = prompt_name s0" "content_name s2 = content_name s0"
    "voice_id s2 = voice_id s0" "system_prompt s2 = system_prompt s0"
    by (simp_all add: s2_def)
  obtain pe ts ti te where f:
    "py_format START_PROMPT_EVENT [uuid_text (prompt_name s0), voice_id s0] = Inr pe"
    "py_format TEXT_CONTENT_START_EVENT
       [uuid_text (prompt_name s0), uuid_text (content_name s0), ''SYSTEM''] = Inr ts"
    "py_format TEXT_INPUT_EVENT
       [uuid_text (prompt_name s0), uuid_text (content_name s0), system_prompt s0] = Inr ti"
    "py_format CONTENT_END_EVENT [uuid_text (prompt_name s0), uuid_text (content_name s0)] = Inr te"
    "init_events s2 = Inr [START_SESSION_EVENT, pe, ts, ti, te]"
    and v: "utf8_valid pe = utf8_valid (voice_id s0)" "utf8_valid ts"
    "utf8_valid ti = utf8_valid (system_prompt s0)" "utf8_valid te"
    using init_events_ok [of s2] unfolding same by blast
  define evs where "evs = [START_SESSION_EVENT, pe, ts, ti, te]"
  have act: "is_active s2" "stream_response s2 = Some tr" by (simp_all add: s2_def)
  obtain s3 tr3 where s3: "send_all E evs s2 =
       ((if list_all utf8_valid evs then None else Some UnicodeEncodeError), s3)"
    "is_active s3" "stream_response s3 = Some tr3"
    "sent tr3 = sent tr @ accepted (takeWhile utf8_valid evs) (send_script tr)"
    using send_all_result [OF act] by blast
  have res: "initialize_stream E w s0 =
      (if list_all utf8_valid evs
       then (None, s3\<lparr>response_task := Some Running,
                 input_subject := subj_subscribe_on (input_subject s3),
                 audio_subject := subj_subscribe_on (audio_subject s3)\<rparr>)
       else init_failed UnicodeEncodeError s3)"
    using a f(5) s3(1) unfolding initialize_stream_def s2_def [symmetric] Let_def evs_def [symmetric]
    by (auto simp: s2_def [symmetric] evs_def [symmetric])
  have good: "fst (initialize_stream E w s0) = None \<and>
              is_active (snd (initialize_stream E w s0)) \<and>
              response_task (snd (initialize_stream E w s0)) = Some Running \<and>
              sent_log (snd (initialize_stream E w s0)) =
                sent tr @ accepted [START_SESSION_EVENT, pe, ts, ti, te] (send_script tr)"
    if "utf8_valid (voice_id s0) \<and> utf8_valid (system_prompt s0)"
  proof -
    have all: "list_all utf8_valid evs" "takeWhile utf8_valid evs = evs"
      using that v by (simp_all add: evs_def valid_START_SESSION)
    show ?thesis
      using s3 all by (simp add: res sent_log_def evs_def)
  qed
  have bad_voice: "fst (initialize_stream E w s0) = Some UnicodeEncodeError \<and>
              \<not> is_active (snd (initialize_stream E w s0)) \<and>
              sent_log (snd (initialize_stream E w s0)) =
                sent tr @ accepted [START_SESSION_EVENT] (send_script tr)"
    if "\<not> utf8_valid (voice_id s0)"
  proof -
    have all: "\<not> list_all utf8_valid evs" "takeWhile utf8_valid evs = [START_SESSION_EVENT]"
      using that v by (simp_all add: evs_def valid_START_SESSION)
    show ?thesis
      using s3 all by (simp add: res sent_log_def init_failed_def)
  qed
  have bad_prompt: "fst (initialize_stream E w s0) = Some UnicodeEncodeError \<and>
              \<not> is_active (snd (initialize_stream E w s0)) \<and>
              sent_log (snd (initialize_stream E w s0)) =
                sent tr @ accepted [START_SESSION_EVENT, pe, ts] (send_script tr)"
    if "utf8_valid (voice_id s0) \<and> \<not> utf8_valid (system_prompt s0)"
  proof -
    have all: "\<not> list_all utf8_valid evs" "takeWhile utf8_valid evs = [START_SESSION_EVENT, pe, ts]"
      using that v by (simp_all add: evs_def valid_START_SESSION)
    show ?thesis
      using s3 all by (simp add: res sent_log_def init_failed_def)
  qed
  show "\<exists>pe ts ti te.
           py_format START_PROMPT_EVENT [uuid_text (prompt_name s0), voice_id s0] = Inr pe \<and>
           py_format TEXT_CONTENT_START_EVENT
             [uuid_text (prompt_name s0), uuid_text (content_name s0), ''SYSTEM''] = Inr ts \<and>
           py_format TEXT_INPUT_EVENT
             [uuid_text (prompt_name s0), uuid_text (content_name s0), system_prompt s0] = Inr ti \<and>
           py_format CONTENT_END_EVENT
             [uuid_text (prompt_name s0), uuid_text (content_name s0)] = Inr te \<and>
           (utf8_valid (voice_id s0) \<and> utf8_valid (system_prompt s0) \<longrightarrow>
              fst (initialize_stream E w s0) = None \<and>
              is_active (snd (initialize_stream E w s0)) \<and>
              response_task (snd (initialize_stream E w s0)) = Some Running \<and>
              sent_log (snd (initialize_stream E w s0)) =
                sent tr @ accepted [START_SESSION_EVENT, pe, ts, ti, te] (send_script tr)) \<and>
           (\<not> utf8_valid (voice_id s0) \<longrightarrow>
              fst (initialize_stream E w s0) = Some UnicodeEncodeError \<and>
              \<not> is_active (snd (initialize_stream E w s0)) \<and>
              sent_log (snd (initialize_stream E w s0)) =
                sent tr @ accepted [START_SESSION_EVENT] (send_script tr)) \<and>
           (utf8_valid (voice_id s0) \<and> \<not> utf8_valid (system_prompt s0) \<longrightarrow>
              fst (initialize_stream E w s0) = Some UnicodeEncodeError \<and>
              \<not> is_active (snd (initialize_stream E w s0)) \<and>
              sent_log (snd (initialize_stream E w s0)) =
                sent tr @ accepted [START_SESSION_EVENT, pe, ts] (send_script tr))"
    using f(1-4) good bad_voice bad_prompt by blast
qed

text \<open>The claim C1 itself fails where the third send raises: no exception reaches the
  caller, the session is active, four events are on the stream, and the exception is on
  \<^verbatim>\<open>input_subject\<close>.\<close>

theorem initialize_stream_send_failure_hidden:
  "fst (initialize_stream demo_env
          \<lparr>client_outcome = None, connect_outcome = Inr failing_transport\<rparr> demo_manager) = None \<and>
   is_active (snd (initialize_stream demo_env
          \<lparr>client_outcome = None, connect_outcome = Inr failing_transport\<rparr> demo_manager)) \<and>
   length (sent_log (snd (initialize_stream demo_env
          \<lparr>client_outcome = None, connect_outcome = Inr failing_transport\<rparr> demo_manager))) = 4 \<and>
   exception (input_subject (snd (initialize_stream demo_env
          \<lparr>client_outcome = None, connect_outcome = Inr failing_transport\<rparr> demo_manager))) = Some SendError"
  by code_simp

theorem initialize_stream_outcomes_witness:
  "connect_outcome \<lparr>client_outcome = None, connect_outcome = Inr demo_transport\<rparr> = Inr demo_transport \<and>
   utf8_valid (voice_id demo_manager) \<and> utf8_valid (system_prompt demo_manager) \<and>
   fst (initialize_stream demo_env
          \<lparr>client_outcome = None, connect_outcome = Inr demo_transport\<rparr> demo_manager) = None \<and>
   is_active (snd (initialize_stream demo_env
          \<lparr>client_outcome = None, connect_outcome = Inr demo_transport\<rparr> demo_manager)) \<and>
   length (sent_log (snd (initialize_stream demo_env
          \<lparr>client_outcome = None, connect_outcome = Inr demo_transport\<rparr> demo_manager))) = 5 \<and>
   \<not> utf8_valid (system_prompt (demo_manager\<lparr>system_prompt := surrogate_prompt\<rparr>)) \<and>
   fst (initialize_stream demo_env
          \<lparr>client_outcome = None, connect_outcome = Inr demo_transport\<rparr>
          (demo_manager\<lparr>system_prompt := surrogate_prompt\<rparr>)) = Some UnicodeEncodeError \<and>
   \<not> is_active (snd (initialize_stream demo_env
          \<lparr>client_outcome = None, connect_outcome = Inr demo_transport\<rparr>
          (demo_manager\<lparr>system_prompt := surrogate_prompt\<rparr>))) \<and>
   length (sent_log (snd (initialize_stream demo_env
          \<lparr>client_outcome = None, connect_outcome = Inr demo_transport\<rparr>
          (demo_manager\<lparr>system_prompt := surrogate_prompt\<rparr>)))) = 3 \<and>
   fst (initialize_stream demo_env
          \<lparr>client_outcome = None, connect_outcome = Inl ConnectError\<rparr> demo_manager) = Some ConnectError \<and>
   \<not> is_active (snd (initialize_stream demo_env
          \<lparr>client_outcome = None, connect_outcome = Inl ConnectError\<rparr> demo_manager)) \<and>
   initialize_stream demo_env
          \<lparr>client_outcome = Some ClientError, connect_outcome = Inr demo_transport\<rparr> demo_manager =
     (Some ClientError, demo_manager) \<and>
   \<not> is_active demo_manager"
proof -
  have v: "utf8_valid (voice_id demo_manager)" "utf8_valid (system_prompt demo_manager)"
    "\<not> utf8_valid (system_prompt (demo_manager\<lparr>system_prompt := surrogate_prompt\<rparr>))"
    "utf8_valid (voice_id (demo_manager\<lparr>system_prompt := surrogate_prompt\<rparr>))"
    "\<not> bedrock_client demo_manager" "\<not> is_active demo_manager"
    by code_simp+
  note ok = initialize_stream_outcomes
      [of demo_manager "\<lparr>client_outcome = None, connect_outcome = Inr demo_transport\<rparr>" demo_env]
  note bad = initialize_stream_outcomes
      [of "demo_manager\<lparr>system_prompt := surrogate_prompt\<rparr>"
          "\<lparr>client_outcome = None, connect_outcome = Inr demo_transport\<rparr>" demo_env]
  note conn = initialize_stream_outcomes
      [of demo_manager "\<lparr>client_outcome = None, connect_outcome = Inl ConnectError\<rparr>" demo_env]
  note cli = initialize_stream_outcomes
      [of demo_manager "\<lparr>client_outcome = Some ClientError, connect_outcome = Inr demo_transport\<rparr>"
          demo_env]
  have 1: "fst (initialize_stream demo_env
          \<lparr>client_outcome = None, connect_outcome = Inr demo_transport\<rparr> demo_manager) = None \<and>
   is_active (snd (initialize_stream demo_env
          \<lparr>client_outcome = None, connect_outcome = Inr demo_transport\<rparr> demo_manager)) \<and>
   length (sent_log (snd (initialize_stream demo_env
          \<lparr>client_outcome = None, connect_outcome = Inr demo_transport\<rparr> demo_manager))) = 5"
    using ok v(1,2) by (auto simp: demo_transport_def accepted_Nil)
  have 2: "fst (initialize_stream demo_env
          \<lparr>client_outcome = None, connect_outcome = Inr demo_transport\<rparr>
          (demo_manager\<lparr>system_prompt := surrogate_prompt\<rparr>)) = Some UnicodeEncodeError \<and>
   \<not> is_active (snd (initialize_stream demo_env
          \<lparr>client_outcome = None, connect_outcome = Inr demo_transport\<rparr>
          (demo_manager\<lparr>system_prompt := surrogate_prompt\<rparr>))) \<and>
   length (sent_log (snd (initialize_stream demo_env
          \<lparr>client_outcome = None, connect_outcome = Inr demo_transport\<rparr>
          (demo_manager\<lparr>system_prompt := surrogate_prompt\<rparr>)))) = 3"
    using bad v(3,4) by (auto simp: demo_transport_def accepted_Nil)
  have 3: "fst (initialize_stream demo_env
          \<lparr>client_outcome = None, connect_outcome = Inl ConnectError\<rparr> demo_manager) = Some ConnectError \<and>
   \<not> is_active (snd (initialize_stream demo_env
          \<lparr>client_outcome = None, connect_outcome = Inl ConnectError\<rparr> demo_manager))"
    using conn by simp
  have 4: "initialize_stream demo_env
          \<lparr>client_outcome = Some ClientError, connect_outcome = Inr demo_transport\<rparr> demo_manager =
     (Some ClientError, demo_manager)"
    using cli v(5) by simp
  show ?thesis
    using v(1,2,3,6) 1 2 3 4 by simp
qed

section \<open>Starting the audio content\<close>

lemma send_raw_event_no_error:
  "utf8_valid ev \<Longrightarrow> fst (send_raw_event E ev s) = None"
  by (auto simp: send_raw_event_def py_encode_def split: option.splits prod.splits)

text \<open>
  C7, as the code has it. \<^verbatim>\<open>send_audio_content_start_event\<close> keeps no record of an open audio
  content: it never raises, and on an active session whose stream accepts the sends a
  second call sends the same content-start event a second time.
\<close>

theorem audio_content_start_sent_again:
  "fst (send_audio_content_start_event E s) = None \<and>
   (\<forall>tr. is_active s \<and> stream_response s = Some tr \<and> send_script tr = [] \<longrightarrow>
      (\<exists>ev. py_format CONTENT_START_EVENT
               [uuid_text (prompt_name s), uuid_text (audio_content_name s)] = Inr ev \<and>
            sent_log (snd (send_audio_content_start_event E s)) = sent tr @ [ev] \<and>
            sent_log (snd (send_audio_content_start_event E
                             (snd (send_audio_content_start_event E s)))) = sent tr @ [ev, ev]))"
proof -
  obtain ev where ev: "py_format CONTENT_START_EVENT
      [uuid_text (prompt_name s), uuid_text (audio_content_name s)] = Inr ev"
    and valid: "utf8_valid ev"
    using valid_CONTENT_START [of "uuid_text (prompt_name s)" "uuid_text (audio_content_name s)"]
    by (auto simp: uuid_text_valid)
  have names: "prompt_name (snd (send_raw_event E x t)) = prompt_name t \<and>
               audio_content_name (snd (send_raw_event E x t)) = audio_content_name t" for x t
    by (auto simp: send_raw_event_def split: option.splits prod.splits sum.splits)
  have first: "fst (send_audio_content_start_event E s) = None"
    using ev valid by (simp add: send_audio_content_start_event_def send_raw_event_no_error)
  have twice: "\<exists>ev. py_format CONTENT_START_EVENT
               [uuid_text (prompt_name s), uuid_text (audio_content_name s)] = Inr ev \<and>
            sent_log (snd (send_audio_content_start_event E s)) = sent tr @ [ev] \<and>
            sent_log (snd (send_audio_content_start_event E
                             (snd (send_audio_content_start_event E s)))) = sent tr @ [ev, ev]"
    if a: "is_active s \<and> stream_response s = Some tr \<and> send_script tr = []" for tr
  proof -
    obtain s1 tr1 where 1: "send_raw_event E ev s = (None, s1)" "is_active s1"
      "stream_response s1 = Some tr1" "sent tr1 = sent tr @ accepted [ev] (send_script tr)"
      "send_script tr1 = tl (send_script tr)"
      using send_raw_event_active [of s tr ev E] a valid by blast
    obtain s2 tr2 where 2: "send_raw_event E ev s1 = (None, s2)"
      "stream_response s2 = Some tr2" "sent tr2 = sent tr1 @ accepted [ev] (send_script tr1)"
      using send_raw_event_active [OF 1(2) 1(3) valid, of E] by blast
    have n1: "prompt_name s1 = prompt_name s" "audio_content_name s1 = audio_content_name s"
      using names [of ev s] 1(1) by simp_all
    have "send_audio_content_start_event E s = (None, s1)"
      using ev 1(1) by (simp add: send_audio_content_start_event_def)
    moreover have "send_audio_content_start_event E s1 = (None, s2)"
      using ev 2(1) n1 by (simp add: send_audio_content_start_event_def)
    ultimately show ?thesis
      using ev a 1 2 by (auto simp: sent_log_def)
  qed
  show ?thesis using first twice by blast
qed

theorem audio_content_start_sent_again_witness:
  "is_active demo_active \<and> stream_response demo_active = Some demo_transport \<and>
   send_script demo_transport = [] \<and>
   fst (send_audio_content_start_event demo_env demo_active) = None \<and>
   length (sent_log (snd (send_audio_content_start_event demo_env
                            (snd (send_audio_content_start_event demo_env demo_active))))) = 2"
  using audio_content_start_sent_again [of demo_env demo_active]
  by (auto simp: demo_active_def demo_transport_def)

text \<open>The claim C7 itself fails on the example session: the second call raises nothing and
  the stream has the content-start event twice.\<close>

theorem second_audio_content_start_raises_nothing:
  "fst (send_audio_content_start_event demo_env
          (snd (send_audio_content_start_event demo_env demo_active))) = None \<and>
   length (sent_log (snd (send_audio_content_start_event demo_env demo_active))) = 1 \<and>
   length (sent_log (snd (send_audio_content_start_event demo_env
          (snd (send_audio_content_start_event demo_env demo_active))))) = 2 \<and>
   sent_log (snd (send_audio_content_start_event demo_env
          (snd (send_audio_content_start_event demo_env demo_active)))) ! 0 =
   sent_log (snd (send_audio_content_start_event demo_env
          (snd (send_audio_content_start_event demo_env demo_active)))) ! 1"
  by code_simp

section \<open>The dispatcher and the end of the stream\<close>

lemma on_content_start_active: "is_active (snd (on_content_start cs s)) = is_active s"
  by (auto simp: on_content_start_def Let_def split: sum.splits bool.splits json.splits option.splits)

lemma on_text_output_active: "is_active (snd (on_text_output E ev s)) = is_active s"
  by (auto simp: on_text_output_def Let_def split: sum.splits bool.splits json.splits option.splits)

lemma on_audio_output_active: "is_active (snd (on_audio_output E ev s)) = is_active s"
  by (auto simp: on_audio_output_def Let_def split: sum.splits bool.splits json.splits option.splits)

lemma dispatch_event_shape:
  assumes "\<And>e. P (Some e, s)" and "P (None, s)"
    and "\<And>cs. P (on_content_start cs s)"
    and "\<And>ev. P (on_text_output E ev s)"
    and "\<And>ev. P (on_audio_output E ev s)"
  shows "P (dispatch_event E j s)"
  proof (cases "py_in ''event'' j")
  case (Inl e) then show ?thesis using assms by (simp add: dispatch_event_def)
next
  case (Inr b) show ?thesis
  proof (cases "py_getitem j ''event''")
    case (Inl e) then show ?thesis using assms Inr by (cases b) (simp_all add: dispatch_event_def)
  next
    case ev: (Inr ev)
    show ?thesis using assms Inr ev
      by (cases b; cases "py_in ''contentStart'' ev"; cases "py_in ''contentEnd'' ev"; cases "py_in ''textOutput'' ev"; cases "py_in ''audioOutput'' ev"; cases "py_getitem ev ''contentStart''")
         (simp_all add: dispatch_event_def split: bool.split)
  qed
qed

lemma dispatch_event_active: "is_active (snd (dispatch_event E j s)) = is_active s"
  by (rule dispatch_event_shape)
    (simp_all add: on_content_start_active on_text_output_active on_audio_output_active)

lemma handle_payload_active: "is_active (snd (handle_payload E b s)) = is_active s"
proof -
  have "is_active (snd (and_then (dispatch_event E j s) f)) = is_active s"
    if "\<And>t. is_active (snd (f t)) = is_active t" for j f
    using dispatch_event_active [of E j s] that
    by (cases "dispatch_event E j s") (auto simp: and_then_def split: option.splits)
  then show ?thesis
    by (simp add: handle_payload_def split: option.splits)
qed

lemma receive_step_active: "is_active (snd (receive_step E r s)) = is_active s"
proof (cases r)
  case (Message payload)
  show ?thesis
  proof (cases payload)
    case None
    then show ?thesis using Message by (simp add: receive_step_def)
  next
    case (Some b)
    obtain res s' where hp: "handle_payload E b s = (res, s')"
      by (cases "handle_payload E b s")
    then have "is_active s' = is_active s"
      using handle_payload_active [of E b s] by simp
    then show ?thesis
      using Message Some hp by (cases res) (simp_all add: receive_step_def)
  qed
qed (simp_all add: receive_step_def)

lemma finish_responses_active: "is_active (finish_responses s) = is_active s"
  by (simp add: finish_responses_def)

lemma process_responses_active: "is_active (snd (process_responses E rs s)) = is_active s"
proof (induction rs arbitrary: s)
  case Nil
  then show ?case by (simp add: finish_responses_active)
next
  case (Cons r rs)
  show ?case
  proof (cases "receive_step E r s")
    case (Pair go s')
    then have "is_active s' = is_active s"
      using receive_step_active [of E r s] by simp
    then show ?thesis
      using Pair Cons.IH [of s'] by (cases go) (simp_all add: finish_responses_active)
  qed
qed

lemma process_responses_exits:
  "r = EndOfStream \<or> r = ReceiveFailure e \<Longrightarrow>
   fst (process_responses E (rs @ r # rs') s) = Exited"
proof (induction rs arbitrary: s)
  case Nil
  then show ?case by (auto simp: receive_step_def)
next
  case (Cons x rs)
  show ?case
  proof (cases "receive_step E x s")
    case (Pair go s')
    then show ?thesis
      using Cons.IH [OF Cons.prems, of s'] by (cases go) simp_all
  qed
qed

text \<open>
  C5, as the code has it. When the stream ends or a receive raises while the session is
  active, the loop of \<^verbatim>\<open>_process_responses\<close> exits (whatever was received before), but the
  dispatcher never assigns \<^verbatim>\<open>is_active\<close>: the session is still marked active afterwards. An
  exception of the receive is passed to \<^verbatim>\<open>output_subject.on_error\<close>; the end of the stream is
  reported by \<^verbatim>\<open>output_subject.on_completed\<close> only, not as an error.
\<close>

theorem end_of_stream_leaves_session_active:
  "is_active s \<longrightarrow>
     fst (process_responses E (rs @ EndOfStream # rs') s) = Exited \<and>
     fst (process_responses E (rs @ ReceiveFailure e # rs') s) = Exited \<and>
     is_active (snd (process_responses E (rs @ EndOfStream # rs') s)) \<and>
     is_active (snd (process_responses E (rs @ ReceiveFailure e # rs') s)) \<and>
     process_responses E (EndOfStream # rs') s =
       (Exited, s\<lparr>output_subject := subj_on_completed (output_subject s)\<rparr>) \<and>
     process_responses E (ReceiveFailure e # rs') s =
       (Exited, s\<lparr>output_subject := subj_on_error e (output_subject s)\<rparr>)"
proof
  assume a: "is_active s"
  have "subj_on_completed (subj_on_error e (output_subject s)) = subj_on_error e (output_subject s)"
    by (simp add: subj_on_completed_def subj_on_error_def)
  then show "fst (process_responses E (rs @ EndOfStream # rs') s) = Exited \<and>
     fst (process_responses E (rs @ ReceiveFailure e # rs') s) = Exited \<and>
     is_active (snd (process_responses E (rs @ EndOfStream # rs') s)) \<and>
     is_active (snd (process_responses E (rs @ ReceiveFailure e # rs') s)) \<and>
     process_responses E (EndOfStream # rs') s =
       (Exited, s\<lparr>output_subject := subj_on_completed (output_subject s)\<rparr>) \<and>
     process_responses E (ReceiveFailure e # rs') s =
       (Exited, s\<lparr>output_subject := subj_on_error e (output_subject s)\<rparr>)"
    using a by (simp add: process_responses_exits process_responses_active receive_step_def
        finish_responses_def)
qed

theorem end_of_stream_leaves_session_active_witness:
  "is_active demo_active \<and>
   process_responses demo_env [EndOfStream] demo_active =
     (Exited, demo_active\<lparr>output_subject := subj_on_completed (output_subject demo_active)\<rparr>) \<and>
   exception (output_subject (snd (process_responses demo_env [ReceiveFailure ReceiveError] demo_active)))
     = Some ReceiveError"
  using end_of_stream_leaves_session_active [of demo_active demo_env "[]" "[]" ReceiveError]
  by (simp add: demo_active_def demo_manager_def init_manager_def subj_on_error_def new_subject_def)

text \<open>The claim C5 itself fails on the example session: after the end of the stream, and
  after a failed receive, \<^verbatim>\<open>is_active\<close> is still true, and the end of the stream leaves no
  exception on \<^verbatim>\<open>output_subject\<close>.\<close>

theorem session_active_after_end_of_stream:
  "fst (process_responses demo_env [EndOfStream] demo_active) = Exited \<and>
   is_active (snd (process_responses demo_env [EndOfStream] demo_active)) \<and>
   is_stopped (output_subject (snd (process_responses demo_env [EndOfStream] demo_active))) \<and>
   exception (output_subject (snd (process_responses demo_env [EndOfStream] demo_active))) = None \<and>
   is_active (snd (process_responses demo_env [ReceiveFailure ReceiveError] demo_active))"
  by code_simp

section \<open>The display flag\<close>

lemma py_in_dict: "py_in k (JObject kvs) = Inr (map_of kvs k \<noteq> None)"
  by (simp add: py_in_def map_of_eq_None_iff)

lemma py_getitem_dict: "map_of kvs k = Some v \<Longrightarrow> py_getitem (JObject kvs) k = Inr v"
  by (simp add: py_getitem_def)

lemma dispatch_content_start:
  assumes "map_of doc ''event'' = Some (JObject ev)"
    and "map_of ev ''contentStart'' = Some content_start"
  shows "dispatch_event E (JObject doc) s = on_content_start content_start s"
  using assms by (simp add: dispatch_event_def py_in_dict py_getitem_dict)

text \<open>
  C8, as the code has it. For an inbound \<^verbatim>\<open>contentStart\<close> event with a role, the dispatcher
  records the role, and
  \<^item> leaves \<^verbatim>\<open>display_assistant_text\<close> as it was when the event has no
    \<^verbatim>\<open>additionalModelFields\<close>, or when that text is not JSON;
  \<^item> sets it when \<^verbatim>\<open>additionalModelFields\<close> is the text of a JSON object: to true if the
    object's \<^verbatim>\<open>generationStage\<close> is \<^verbatim>\<open>"SPECULATIVE"\<close>, to false otherwise.
\<close>

theorem content_start_display_flag:
  assumes "map_of doc ''event'' = Some (JObject ev)"
    and "map_of ev ''contentStart'' = Some (JObject cs)"
    and "map_of cs ''role'' = Some r"
  shows
   "(map_of cs ''additionalModelFields'' = None \<longrightarrow>
       dispatch_event E (JObject doc) s = (None, s\<lparr>role := Some r\<rparr>)) \<and>
    (\<forall>t. map_of cs ''additionalModelFields'' = Some (JString t) \<and> json_loads t = None \<longrightarrow>
       dispatch_event E (JObject doc) s = (None, s\<lparr>role := Some r\<rparr>)) \<and>
    (\<forall>t af. map_of cs ''additionalModelFields'' = Some (JString t) \<and>
            json_loads t = Some (JObject af) \<longrightarrow>
       dispatch_event E (JObject doc) s =
         (None, s\<lparr>role := Some r,
                   display_assistant_text :=
                     (map_of af ''generationStage'' = Some (JString ''SPECULATIVE''))\<rparr>))"
proof -
  have d: "dispatch_event E (JObject doc) s = on_content_start (JObject cs) s"
    using assms(1,2) by (rule dispatch_content_start)
  have absent: "on_content_start (JObject cs) s = (None, s\<lparr>role := Some r\<rparr>)"
    if "map_of cs ''additionalModelFields'' = None"
    using that assms(3) by (simp add: on_content_start_def py_in_dict py_getitem_dict)
  have bad: "on_content_start (JObject cs) s = (None, s\<lparr>role := Some r\<rparr>)"
    if "map_of cs ''additionalModelFields'' = Some (JString t)" "json_loads t = None" for t
    using that assms(3) by (simp add: on_content_start_def py_in_dict py_getitem_dict)
  have good: "on_content_start (JObject cs) s =
         (None, s\<lparr>role := Some r,
                   display_assistant_text :=
                     (map_of af ''generationStage'' = Some (JString ''SPECULATIVE''))\<rparr>)"
    if "map_of cs ''additionalModelFields'' = Some (JString t)" "json_loads t = Some (JObject af)"
    for t af
    using that assms(3) by (auto simp: on_content_start_def py_in_dict py_getitem_dict Let_def)
  show ?thesis
    using absent bad good by (simp add: d)
qed

theorem content_start_display_flag_witness:
  "json_loads speculative_fields = Some (JObject [(''generationStage'', JString ''SPECULATIVE'')]) \<and>
   dispatch_event demo_env
     (JObject [(''event'', JObject [(''contentStart'',
        JObject [(''role'', JString ''ASSISTANT''),
                 (''additionalModelFields'', JString speculative_fields)])])]) demo_active =
     (None, demo_active\<lparr>role := Some (JString ''ASSISTANT''), display_assistant_text := True\<rparr>) \<and>
   dispatch_event demo_env
     (JObject [(''event'', JObject [(''contentStart'',
        JObject [(''role'', JString ''USER'')])])]) demo_active =
     (None, demo_active\<lparr>role := Some (JString ''USER'')\<rparr>)"
proof -
  have j: "json_loads speculative_fields = Some (JObject [(''generationStage'', JString ''SPECULATIVE'')])"
    by code_simp
  show ?thesis
    using j
      content_start_display_flag
        [of "[(''event'', JObject [(''contentStart'',
                JObject [(''role'', JString ''ASSISTANT''),
                         (''additionalModelFields'', JString speculative_fields)])])]"
            "[(''contentStart'',
                JObject [(''role'', JString ''ASSISTANT''),
                         (''additionalModelFields'', JString speculative_fields)])]"
            "[(''role'', JString ''ASSISTANT''),
              (''additionalModelFields'', JString speculative_fields)]"
            "JString ''ASSISTANT''" demo_env demo_active]
      content_start_display_flag
        [of "[(''event'', JObject [(''contentStart'', JObject [(''role'', JString ''USER'')])])]"
            "[(''contentStart'', JObject [(''role'', JString ''USER'')])]"
            "[(''role'', JString ''USER'')]"
            "JString ''USER''" demo_env demo_active]
    by simp
qed

text \<open>The claim C8 itself fails when the flag is set and a content start without
  \<^verbatim>\<open>additionalModelFields\<close> arrives: the role is recorded and the flag is still set.\<close>

theorem display_flag_kept_without_stage:
  "display_assistant_text
     (deliver demo_env (Message (Some plain_content_start_msg))
        (demo_active\<lparr>display_assistant_text := True\<rparr>)) \<and>
   role (deliver demo_env (Message (Some plain_content_start_msg))
        (demo_active\<lparr>display_assistant_text := True\<rparr>)) = Some (JString ''ASSISTANT'')"
  by code_simp

section \<open>Exceptions in the playback loop\<close>

lemma loop_head_streaming:
  "is_streaming a \<Longrightarrow> is_streaming (loop_head a) \<and> pc (loop_head a) \<noteq> PlaybackDone"
  by (simp add: loop_head_def)

lemma write_chunk_streaming: "is_streaming (snd (write_chunk c a)) = is_streaming a"
  by (auto simp: write_chunk_def split: option.splits prod.splits)

lemma play_try_streaming:
  "is_streaming (snd (play_try E a)) = is_streaming a"
proof (cases "pc a")
  case AwaitingBuffer
  then show ?thesis
    by (cases "audio_output_queue (stream_manager a)")
      (simp_all add: play_try_def Let_def begin_chunk_def)
next
  case (Writing d i)
  then show ?thesis
    using write_chunk_streaming [of "take (min (i + nat (CHUNK_SIZE E)) (length d) - i) (drop i d)" a]
    by (cases "write_chunk (take (min (i + nat (CHUNK_SIZE E)) (length d) - i) (drop i d)) a")
      (auto simp: play_try_def Let_def split: option.splits)
next
  case (Yielding d i)
  then show ?thesis by (simp add: play_try_def begin_chunk_def)
qed (simp_all add: play_try_def)

lemma play_try_not_done:
  "pc a \<noteq> PlaybackDone \<Longrightarrow> play_try E a = (None, a') \<Longrightarrow> pc a' \<noteq> PlaybackDone"
proof (cases "pc a")
  case AwaitingBuffer
  assume "play_try E a = (None, a')"
  then show ?thesis using AwaitingBuffer
    by (cases "audio_output_queue (stream_manager a)")
      (auto simp: play_try_def Let_def begin_chunk_def split: if_splits)
next
  case (Writing d i)
  assume "play_try E a = (None, a')"
  then show ?thesis using Writing
    by (auto simp: play_try_def Let_def split: option.splits prod.splits)
next
  case (Yielding d i)
  assume "play_try E a = (None, a')"
  then show ?thesis using Yielding
    by (auto simp: play_try_def begin_chunk_def split: if_splits)
qed (auto simp: play_try_def)

lemma on_exception_streaming:
  "is_streaming a \<Longrightarrow> is_streaming (on_exception e a) \<and> pc (on_exception e a) \<noteq> PlaybackDone"
  by (simp add: on_exception_def playback_failed_def loop_head_streaming)

lemma play_step_streaming:
  assumes "is_streaming a" "pc a \<noteq> PlaybackDone"
  shows "is_streaming (play_step E a) \<and> pc (play_step E a) \<noteq> PlaybackDone"
proof (cases "pc a = AtLoopHead")
  case True
  then show ?thesis using assms by (simp add: play_step_def loop_head_streaming)
next
  case False
  obtain res a' where t: "play_try E a = (res, a')" by (cases "play_try E a")
  have s': "is_streaming a'" using play_try_streaming [of E a] t assms(1) by simp
  have step: "play_step E a =
     (case res of Some e \<Rightarrow> on_exception e a'
      | None \<Rightarrow> if pc a' = AtLoopHead then loop_head a' else a')"
    using False assms(2) t by (cases "pc a") (simp_all add: play_step_def)
  show ?thesis
  proof (cases res)
    case None
    then show ?thesis
      using step s' play_try_not_done [OF assms(2), of E a'] t loop_head_streaming [OF s'] by simp
  next
    case (Some e)
    then show ?thesis using step on_exception_streaming [OF s'] by simp
  qed
qed

lemma play_try_raises:
  assumes "play_try E a = (Some e, a')"
  shows "pc a' = pc a \<and> (pc a = AwaitingBuffer \<or> (\<exists>d i. pc a = Writing d i)) \<and>
         (e = TimeoutError \<longrightarrow> pc a = AwaitingBuffer \<and> audio_output_queue (stream_manager a) = [])"
proof (cases "pc a")
  case AwaitingBuffer
  then show ?thesis using assms
    by (cases "audio_output_queue (stream_manager a)")
      (auto simp: play_try_def Let_def begin_chunk_def split: if_splits)
next
  case (Writing d i)
  then show ?thesis using assms
    by (auto simp: play_try_def Let_def write_chunk_def device_write_def
        split: option.splits prod.splits if_splits list.splits bool.splits)
next
  case (Yielding d i)
  then show ?thesis using assms by (auto simp: play_try_def split: if_splits)
qed (use assms in \<open>auto simp: play_try_def\<close>)

text \<open>
  C10. Let the \<^verbatim>\<open>try\<close> block of the playback loop raise an exception while streaming is
  enabled. Then the loop is not left, now or at the next turn, and streaming is still
  enabled. \<^verbatim>\<open>TimeoutError\<close> is raised only by the wait on an empty queue, when no buffer is
  being played. Every other exception (a failed write of the device, \<^verbatim>\<open>ValueError\<close> of
  \<^verbatim>\<open>range\<close>) is raised with a buffer in hand, is caught and is printed, and the task goes to
  the test of the \<^verbatim>\<open>while\<close> for the next turn.
\<close>

theorem playback_error_is_logged_and_loop_goes_on:
  assumes "is_streaming a" and "play_try E a = (Some e, a')"
  shows "is_streaming (play_step E a) \<and>
         pc (play_step E a) \<noteq> PlaybackDone \<and>
         pc (play_step E (play_step E a)) \<noteq> PlaybackDone \<and>
         (e = TimeoutError \<longrightarrow> pc a = AwaitingBuffer \<and> audio_output_queue (stream_manager a) = []) \<and>
         (e \<noteq> TimeoutError \<longrightarrow>
            play_step E a = a'\<lparr>stdout_lines := stdout_lines a' @ [PlaybackError e], pc := AtLoopHead\<rparr>)"
proof -
  have r: "pc a' = pc a" "pc a = AwaitingBuffer \<or> (\<exists>d i. pc a = Writing d i)"
    "e = TimeoutError \<longrightarrow> pc a = AwaitingBuffer \<and> audio_output_queue (stream_manager a) = []"
    using play_try_raises [OF assms(2)] by simp_all
  have nd: "pc a \<noteq> PlaybackDone" using r(2) by auto
  have s': "is_streaming a'" using play_try_streaming [of E a] assms by simp
  have step: "play_step E a = on_exception e a'"
    using r(2) assms(2) by (auto simp: play_step_def)
  have one: "is_streaming (play_step E a) \<and> pc (play_step E a) \<noteq> PlaybackDone"
    using play_step_streaming [OF assms(1) nd] .
  then have two: "pc (play_step E (play_step E a)) \<noteq> PlaybackDone"
    using play_step_streaming [of "play_step E a" E] by simp
  have logged: "play_step E a = a'\<lparr>stdout_lines := stdout_lines a' @ [PlaybackError e], pc := AtLoopHead\<rparr>"
    if "e \<noteq> TimeoutError"
    using that s' by (simp add: step on_exception_def playback_failed_def)
  show ?thesis using one two r(3) logged by simp
qed

theorem playback_error_is_logged_and_loop_goes_on_witness:
  "is_streaming demo_writing \<and>
   fst (play_try demo_env demo_writing) = Some DeviceError \<and>
   stdout_lines (play_step demo_env demo_writing) = [PlaybackError DeviceError] \<and>
   pc (play_step demo_env demo_writing) = AtLoopHead \<and>
   pc (play_step demo_env (play_step demo_env demo_writing)) \<noteq> PlaybackDone"
proof -
  have t: "play_try demo_env demo_writing =
     (Some DeviceError, demo_writing\<lparr>output_stream := Some (failing_device\<lparr>write_script := []\<rparr>)\<rparr>)"
    by (simp add: play_try_def demo_writing_def write_chunk_def failing_device_def device_write_def
        demo_env_def)
  have s: "is_streaming demo_writing" by (simp add: demo_writing_def)
  note th = playback_error_is_logged_and_loop_goes_on [OF s t]
  have r1: "pc (play_step demo_env (play_step demo_env demo_writing)) \<noteq> PlaybackDone"
    using th by blast
  have r2: "play_step demo_env demo_writing =
       demo_writing\<lparr>output_stream := Some (failing_device\<lparr>write_script := []\<rparr>),
                    stdout_lines := stdout_lines demo_writing @ [PlaybackError DeviceError],
                    pc := AtLoopHead\<rparr>"
    using th by simp
  have "stdout_lines (play_step demo_env demo_writing) = [PlaybackError DeviceError]"
    "pc (play_step demo_env demo_writing) = AtLoopHead"
    unfolding r2 by (simp_all add: demo_writing_def)
  then show ?thesis
    using s t r1 by simp
qed

section \<open>Barge-in\<close>
























section \<open>Encoding with the templates, decoding with \<^verbatim>\<open>json.loads\<close>\<close>



















end
